theory Spec2Isabelle
  imports Main
begin

section \<open>Python values, exceptions and strings\<close>

text \<open>
  The exceptions that can travel through the two modules. \<open>ClientError\<close> is
  \<open>botocore.exceptions.ClientError\<close> and carries \<open>str(e)\<close>; \<open>BotoCoreError\<close> stands for
  the client's other failures (connection and validation errors), which are not
  instances of \<open>ClientError\<close>. \<open>SystemExit\<close> is what \<open>exit(1)\<close> raises.
\<close>

datatype exn =
    ClientError string
  | BotoCoreError string
  | KeyError string
  | StopIteration
  | SystemExit nat
  | RuntimeError string

text \<open>
  A value that is either \<open>None\<close> or a \<open>str\<close> is a \<open>string option\<close>. \<open>str(x)\<close> prints
  \<open>None\<close> as the four characters \<open>None\<close>; \<open>not x\<close> holds for \<open>None\<close> and for the empty string.
\<close>

fun py_str :: "string option \<Rightarrow> string" where
  "py_str None = ''None''"
| "py_str (Some s) = s"

fun truthy :: "string option \<Rightarrow> bool" where
  "truthy None = False"
| "truthy (Some s) = (s \<noteq> [])"

text \<open>The value a successful truth test has let through: a non-empty string.\<close>

fun truthy_value :: "string option \<Rightarrow> string option" where
  "truthy_value None = None"
| "truthy_value (Some s) = (if s = [] then None else Some s)"

section \<open>aws\_config.py\<close>

type_synonym environ = "string \<rightharpoonup> string"

record aws_config =
  endpoint_url :: string
  region_name :: string
  aws_access_key_id :: string
  aws_secret_access_key :: string

definition getenv :: "environ \<Rightarrow> string \<Rightarrow> string option" where
  "getenv env key = env key"

definition getenv_default :: "environ \<Rightarrow> string \<Rightarrow> string \<Rightarrow> string" where
  "getenv_default env key dflt = (case env key of None \<Rightarrow> dflt | Some v \<Rightarrow> v)"

text \<open>The loop \<open>for key in required: if not os.getenv(key): raise RuntimeError(...)\<close>.\<close>

fun check_required :: "environ \<Rightarrow> string list \<Rightarrow> exn + unit" where
  "check_required env [] = Inr ()"
| "check_required env (key # keys) =
     (if \<not> truthy (getenv env key)
      then Inl (RuntimeError (''Missing required AWS environment variable: '' @ key))
      else check_required env keys)"

text \<open>
  \<open>load_aws_config\<close>. The host that the LocalStack client reports
  (\<open>client.configuration.host\<close>) comes from a library outside the repository and is a
  parameter; the process environment is the map \<open>env\<close>.
\<close>

definition load_aws_config :: "string \<Rightarrow> environ \<Rightarrow> exn + aws_config" where
  "load_aws_config localstack_host env =
     (let debug = (getenv_default env ''DEBUG'' ''0'' = ''1'') in
      if debug then
        Inr \<lparr>endpoint_url = localstack_host,
             region_name = ''us-east-1'',
             aws_access_key_id = ''test'',
             aws_secret_access_key = ''test''\<rparr>
      else
        (case check_required env [''AWS_REGION'', ''AWS_ACCESS_KEY_ID'', ''AWS_SECRET_ACCESS_KEY''] of
           Inl e \<Rightarrow> Inl e
         | Inr _ \<Rightarrow>
             Inr \<lparr>endpoint_url = py_str (getenv env ''AWS_ENDPOINT_URL''),
                  region_name = py_str (getenv env ''AWS_REGION''),
                  aws_access_key_id = py_str (getenv env ''AWS_ACCESS_KEY_ID''),
                  aws_secret_access_key = py_str (getenv env ''AWS_SECRET_ACCESS_KEY'')\<rparr>))"

section \<open>json.dumps on the two templates\<close>

text \<open>
  \<open>json.dumps\<close> with its defaults (\<open>ensure_ascii\<close>, separators \<open>', '\<close> and \<open>': '\<close>) on a
  dictionary whose values are integers or strings. A \<open>char\<close> is read as the code point
  of the same number, so the strings covered are those of code points below 256.
\<close>

datatype json_scalar = JInt int | JStr string

definition dquote :: char where
  "dquote = CHR 0x22"

definition backslash :: char where
  "backslash = CHR 0x5C"

definition hex_digit :: "nat \<Rightarrow> char" where
  "hex_digit n = ''0123456789abcdef'' ! (n mod 16)"

definition json_escape_char :: "char \<Rightarrow> string" where
  "json_escape_char c =
     (if c = dquote then [backslash, dquote]
      else if c = backslash then [backslash, backslash]
      else if c = CHR 0x0A then [backslash, CHR ''n'']
      else if c = CHR 0x0D then [backslash, CHR ''r'']
      else if c = CHR 0x09 then [backslash, CHR ''t'']
      else if c = CHR 0x08 then [backslash, CHR ''b'']
      else if c = CHR 0x0C then [backslash, CHR ''f'']
      else if (of_char c :: nat) < 0x20 \<or> 0x7E < (of_char c :: nat)
        then [backslash, CHR ''u'', CHR ''0'', CHR ''0'',
              hex_digit (of_char c div 16), hex_digit (of_char c mod 16)]
      else [c])"

definition json_string :: "string \<Rightarrow> string" where
  "json_string s = dquote # concat (map json_escape_char s) @ [dquote]"

fun show_nat :: "nat \<Rightarrow> string" where
  "show_nat n =
     (if n < 10 then [''0123456789'' ! n]
      else show_nat (n div 10) @ [''0123456789'' ! (n mod 10)])"

declare show_nat.simps [simp del]

definition show_int :: "int \<Rightarrow> string" where
  "show_int i = (if i < 0 then CHR ''-'' # show_nat (nat (- i)) else show_nat (nat i))"

fun json_scalar_dumps :: "json_scalar \<Rightarrow> string" where
  "json_scalar_dumps (JInt i) = show_int i"
| "json_scalar_dumps (JStr s) = json_string s"

fun join_items :: "string list \<Rightarrow> string" where
  "join_items [] = []"
| "join_items [x] = x"
| "join_items (x # y # ys) = x @ '', '' @ join_items (y # ys)"

definition json_dumps :: "(string \<times> json_scalar) list \<Rightarrow> string" where
  "json_dumps kvs =
     ''{'' @ join_items (map (\<lambda>(k, v). json_string k @ '': '' @ json_scalar_dumps v) kvs) @ ''}''"

section \<open>The remote gateway, and programs that talk to it\<close>

text \<open>
  What the module-level \<open>apigateway_client\<close> is asked, with the keyword arguments of each
  call in the order the source writes them.
\<close>

datatype request =
    CreateRestApi string string "string list"
  | GetResources string
  | CreateResource string string string
  | PutMethod string string string string
  | PutMethodResponse string string string string "(string \<times> string) list"
  | PutIntegration string string string string "(string \<times> string) list"
  | PutIntegrationResponse string string string string "(string \<times> string) list"
  | CreateDeployment string string string

text \<open>
  A response dictionary: the keys the source subscripts, each possibly absent. The
  entries of a resource listing carry \<open>id\<close> and \<open>path\<close>.
\<close>

datatype item = Item (item_id: string) (item_path: string)

datatype response = Response (resp_id: "string option") (resp_items: "item list option")

type_synonym outcome = "exn + response"

text \<open>
  What a run does that can be seen from outside: the calls to the client with what
  each brought back, the blocking waits, and the lines printed.
\<close>

datatype event = Call request outcome | Sleep nat | Print string

text \<open>
  The gateway service is any state machine: from its state and a request it yields a
  response or raises, and moves on. A program takes the gateway's state and returns its
  result (a value or the exception that left it), the events in order, and the new state.
\<close>

type_synonym 'g gateway = "'g \<Rightarrow> request \<Rightarrow> outcome \<times> 'g"

type_synonym ('g, 'a) prog = "'g \<Rightarrow> (exn + 'a) \<times> event list \<times> 'g"

definition return :: "'a \<Rightarrow> ('g, 'a) prog" where
  "return x g = (Inr x, [], g)"

definition raise :: "exn \<Rightarrow> ('g, 'a) prog" where
  "raise e g = (Inl e, [], g)"

definition bind :: "('g, 'a) prog \<Rightarrow> ('a \<Rightarrow> ('g, 'b) prog) \<Rightarrow> ('g, 'b) prog" where
  "bind m f g =
     (case m g of
        (Inl e, evs, g') \<Rightarrow> (Inl e, evs, g')
      | (Inr x, evs, g') \<Rightarrow> (case f x g' of (r, evs', g'') \<Rightarrow> (r, evs @ evs', g'')))"

text \<open>\<open>try: m except ClientError as e: h(str(e))\<close>: every other exception passes through.\<close>

definition except_ClientError :: "('g, 'a) prog \<Rightarrow> (string \<Rightarrow> ('g, 'a) prog) \<Rightarrow> ('g, 'a) prog" where
  "except_ClientError m h g =
     (case m g of
        (Inr x, evs, g') \<Rightarrow> (Inr x, evs, g')
      | (Inl e, evs, g') \<Rightarrow>
          (case e of
             ClientError msg \<Rightarrow> (case h msg g' of (r, evs', g'') \<Rightarrow> (r, evs @ evs', g''))
           | _ \<Rightarrow> (Inl e, evs, g')))"

definition client_call :: "'g gateway \<Rightarrow> request \<Rightarrow> ('g, response) prog" where
  "client_call gw q g = (case gw g q of (out, g') \<Rightarrow> (out, [Call q out], g'))"

definition py_print :: "string \<Rightarrow> ('g, unit) prog" where
  "py_print s g = (Inr (), [Print s], g)"

definition time_sleep :: "nat \<Rightarrow> ('g, unit) prog" where
  "time_sleep n g = (Inr (), [Sleep n], g)"

definition subscript_id :: "response \<Rightarrow> ('g, string) prog" where
  "subscript_id r = (case resp_id r of None \<Rightarrow> raise (KeyError ''id'') | Some s \<Rightarrow> return s)"

definition subscript_items :: "response \<Rightarrow> ('g, item list) prog" where
  "subscript_items r = (case resp_items r of None \<Rightarrow> raise (KeyError ''items'') | Some xs \<Rightarrow> return xs)"

text \<open>\<open>next(it)\<close> on the values a generator would yield.\<close>

fun py_next :: "'a list \<Rightarrow> ('g, 'a) prog" where
  "py_next [] = raise StopIteration"
| "py_next (x # xs) = return x"

section \<open>aws\_gateway.py\<close>

text \<open>\<open>create_rest_api\<close> (lines 14--29): "Create a new REST API."\<close>

definition create_rest_api :: "'g gateway \<Rightarrow> string \<Rightarrow> ('g, string option) prog" where
  "create_rest_api gw api_name =
     except_ClientError
       (bind (client_call gw (CreateRestApi api_name
                ''A test API created with LocalStack and Boto3'' [''REGIONAL''])) (\<lambda>response.
        bind (subscript_id response) (\<lambda>api_id.
        bind (py_print (''Created REST API: '' @ api_name @ '' (ID: '' @ api_id @ '')'')) (\<lambda>_.
        return (Some api_id)))))
       (\<lambda>e. bind (py_print (''Error creating API: '' @ e)) (\<lambda>_. return None))"

text \<open>
  \<open>get_root_resource_id\<close> (lines 32--39): "Get the root resource ID for the API." It has no
  \<open>try\<close>; the generator expression over \<open>response["items"]\<close> is the filtered, mapped list.
\<close>

definition get_root_resource_id :: "'g gateway \<Rightarrow> string \<Rightarrow> ('g, string) prog" where
  "get_root_resource_id gw api_id =
     bind (client_call gw (GetResources api_id)) (\<lambda>response.
     bind (subscript_items response) (\<lambda>items.
     bind (py_next (map item_id (filter (\<lambda>item. item_path item = ''/'') items))) (\<lambda>root_resource_id.
     bind (py_print (''Root resource ID: '' @ root_resource_id)) (\<lambda>_.
     return root_resource_id))))"

text \<open>\<open>create_child_resource\<close> (lines 42--53): "Create a child resource (e.g., /test)."\<close>

definition create_child_resource ::
  "'g gateway \<Rightarrow> string \<Rightarrow> string \<Rightarrow> string \<Rightarrow> ('g, string option) prog" where
  "create_child_resource gw api_id parent_resource_id path_part =
     except_ClientError
       (bind (client_call gw (CreateResource api_id parent_resource_id path_part)) (\<lambda>response.
        bind (subscript_id response) (\<lambda>child_resource_id.
        bind (py_print (''Created child resource /'' @ path_part @ '' (ID: '' @ child_resource_id @ '')'')) (\<lambda>_.
        return (Some child_resource_id)))))
       (\<lambda>e. bind (py_print (''Error creating child resource: '' @ e)) (\<lambda>_. return None))"

text \<open>\<open>create_method\<close> (lines 56--69): "Create a method on the resource."\<close>

definition create_method ::
  "'g gateway \<Rightarrow> string \<Rightarrow> string \<Rightarrow> string \<Rightarrow> ('g, response option) prog" where
  "create_method gw api_id resource_id http_method =
     except_ClientError
       (bind (client_call gw (PutMethod api_id resource_id http_method ''NONE'')) (\<lambda>response.
        bind (py_print (''Created '' @ http_method @ '' method on resource '' @ resource_id)) (\<lambda>_.
        return (Some response))))
       (\<lambda>e. bind (py_print (''Error creating method: '' @ e)) (\<lambda>_. return None))"

text \<open>\<open>create_method_response\<close> (lines 72--86): "Define allowed method response (status 200)."\<close>

definition create_method_response ::
  "'g gateway \<Rightarrow> string \<Rightarrow> string \<Rightarrow> string \<Rightarrow> ('g, unit) prog" where
  "create_method_response gw api_id resource_id http_method =
     except_ClientError
       (bind (client_call gw (PutMethodResponse api_id resource_id http_method ''200''
                [(''application/json'', ''Empty'')])) (\<lambda>_.
        py_print (''Created method response (200) for '' @ http_method
                    @ '' on resource '' @ resource_id)))
       (\<lambda>e. py_print (''Error creating method response: '' @ e))"

text \<open>
  \<open>set_mock_integration\<close> (lines 89--105): "Set up a mock integration for the method." The
  parameter \<open>response_body\<close> is taken and not used, as in the source.
\<close>

definition set_mock_integration ::
  "'g gateway \<Rightarrow> string \<Rightarrow> string \<Rightarrow> string \<Rightarrow> string \<Rightarrow> ('g, unit) prog" where
  "set_mock_integration gw api_id resource_id http_method response_body =
     except_ClientError
       (bind (return (json_dumps [(''statusCode'', JInt 200)])) (\<lambda>request_template.
        bind (client_call gw (PutIntegration api_id resource_id http_method ''MOCK''
                [(''application/json'', request_template)])) (\<lambda>_.
        py_print (''Set mock integration for '' @ http_method @ '' on resource '' @ resource_id))))
       (\<lambda>e. py_print (''Error setting integration: '' @ e))"

text \<open>\<open>set_mock_integration_response\<close> (lines 108--125): "Map the mock status to a response body."\<close>

definition set_mock_integration_response ::
  "'g gateway \<Rightarrow> string \<Rightarrow> string \<Rightarrow> string \<Rightarrow> string \<Rightarrow> ('g, unit) prog" where
  "set_mock_integration_response gw api_id resource_id http_method response_body =
     except_ClientError
       (bind (return (json_dumps [(''statusCode'', JInt 200), (''body'', JStr response_body)]))
          (\<lambda>response_template.
        bind (client_call gw (PutIntegrationResponse api_id resource_id http_method ''200''
                [(''application/json'', response_template)])) (\<lambda>_.
        py_print (''Set mock integration response for '' @ http_method
                    @ '' on resource '' @ resource_id))))
       (\<lambda>e. py_print (''Error setting integration response: '' @ e))"

text \<open>
  \<open>print_resources\<close> (lines 128--133): "Print all resources for verification." It has no
  \<open>try\<close>; the header is printed before \<open>response["items"]\<close> is read.
\<close>

fun print_resources_loop :: "item list \<Rightarrow> ('g, unit) prog" where
  "print_resources_loop [] = return ()"
| "print_resources_loop (item # items) =
     bind (py_print (''  Path: '' @ item_path item @ '', ID: '' @ item_id item)) (\<lambda>_.
     print_resources_loop items)"

definition print_resources :: "'g gateway \<Rightarrow> string \<Rightarrow> ('g, unit) prog" where
  "print_resources gw api_id =
     bind (client_call gw (GetResources api_id)) (\<lambda>response.
     bind (py_print (CHR 0x0A # ''Current Resources:'')) (\<lambda>_.
     bind (subscript_items response) (\<lambda>items.
     print_resources_loop items)))"

text \<open>
  \<open>create_deployment\<close> (lines 136--150): "Deploy the API to a stage." The wait of ten
  seconds is inside the \<open>try\<close>, right before the remote call; \<open>response['id']\<close> is read
  for the printed line and again for the returned value.
\<close>

definition create_deployment :: "'g gateway \<Rightarrow> string \<Rightarrow> string \<Rightarrow> ('g, string option) prog" where
  "create_deployment gw api_id stage_name =
     except_ClientError
       (bind (time_sleep 10) (\<lambda>_.
        bind (client_call gw (CreateDeployment api_id stage_name
                ''Deployment with full mock setup'')) (\<lambda>response.
        bind (subscript_id response) (\<lambda>shown_id.
        bind (py_print (''Deployed API to stage '' @ [CHR 0x27] @ stage_name @ [CHR 0x27]
                          @ ''. Deployment ID: '' @ shown_id)) (\<lambda>_.
        bind (subscript_id response) (\<lambda>deployment_id.
        return (Some deployment_id)))))))
       (\<lambda>e. bind (py_print (''Error deploying API: '' @ e)) (\<lambda>_. return None))"

text \<open>
  \<open>get_invoke_url\<close> (lines 153--162). Only the first line is an f-string; the other three
  print their braces as they stand.
\<close>

definition get_invoke_url :: "string \<Rightarrow> ('g, string) prog" where
  "get_invoke_url api_id =
     (let base_url = ''http://'' @ api_id @ ''.execute-api.localhost.localstack.cloud:4566/prod'' in
      bind (py_print (CHR 0x0A # ''Base Invoke URL: '' @ base_url)) (\<lambda>_.
      bind (py_print (''Test root: curl -X GET '' @ [CHR 0x27] @ ''{base_url}/'' @ [CHR 0x27])) (\<lambda>_.
      bind (py_print (''Test /test: curl -X GET '' @ [CHR 0x27] @ ''{base_url}/test'' @ [CHR 0x27])) (\<lambda>_.
      bind (py_print ''Alternative (if DNS issues): http://localhost:4566/_aws/execute-api/{api_id}/prod/'') (\<lambda>_.
      return base_url)))))"

text \<open>
  \<open>setup_rest_api_gateway\<close> (lines 165--203): "Sets up an API gateway." \<open>exit(1)\<close> raises
  \<open>SystemExit(1)\<close>; \<open>create_deployment\<close> is called with its default stage \<open>prod\<close>.
\<close>

definition setup_rest_api_gateway :: "'g gateway \<Rightarrow> string \<Rightarrow> string \<Rightarrow> ('g, unit) prog" where
  "setup_rest_api_gateway gw api_name http_method =
     bind (create_rest_api gw api_name) (\<lambda>created.
     (case truthy_value created of
       None \<Rightarrow> raise (SystemExit 1)
     | Some api_id \<Rightarrow>
         bind (get_root_resource_id gw api_id) (\<lambda>root_resource_id.
         bind (create_method gw api_id root_resource_id http_method) (\<lambda>_.
         bind (create_method_response gw api_id root_resource_id http_method) (\<lambda>_.
         bind (set_mock_integration gw api_id root_resource_id http_method ''Hello from root!'') (\<lambda>_.
         bind (set_mock_integration_response gw api_id root_resource_id http_method ''Hello from root!'') (\<lambda>_.
         bind (create_child_resource gw api_id root_resource_id ''test'') (\<lambda>test_resource.
         (case truthy_value test_resource of
           Some test_resource_id \<Rightarrow>
             bind (create_method gw api_id test_resource_id http_method) (\<lambda>_.
             bind (create_method_response gw api_id test_resource_id http_method) (\<lambda>_.
             bind (set_mock_integration gw api_id test_resource_id http_method ''Hello from /test!'') (\<lambda>_.
             bind (set_mock_integration_response gw api_id test_resource_id http_method ''Hello from /test!'') (\<lambda>_.
             bind (print_resources gw api_id) (\<lambda>_.
             bind (create_deployment gw api_id ''prod'') (\<lambda>deployment_id.
             if truthy deployment_id
             then bind (get_invoke_url api_id) (\<lambda>_. return ())
             else return ()))))))
         | None \<Rightarrow> py_print ''Failed to create /test resource; skipping.'')))))))))"

text \<open>Reading a run: its result, what it did, and only the requests it sent.\<close>

definition result_of :: "(exn + 'a) \<times> event list \<times> 'g \<Rightarrow> exn + 'a" where
  "result_of t = fst t"

definition events_of :: "(exn + 'a) \<times> event list \<times> 'g \<Rightarrow> event list" where
  "events_of t = fst (snd t)"

fun requests :: "event list \<Rightarrow> request list" where
  "requests [] = []"
| "requests (Call q out # evs) = q # requests evs"
| "requests (Sleep n # evs) = requests evs"
| "requests (Print s # evs) = requests evs"

section \<open>Vocabulary of the properties\<close>

text \<open>
  A call that hands back an identifier: a response whose \<open>id\<close> is a non-empty string.
  A listing that shows the root resource: a response whose \<open>items\<close> has an entry of
  path \<open>/\<close>.
\<close>

definition gives_id :: "outcome \<Rightarrow> bool" where
  "gives_id out = (case out of Inl e \<Rightarrow> False | Inr r \<Rightarrow> truthy (resp_id r))"

definition lists_root :: "outcome \<Rightarrow> bool" where
  "lists_root out =
     (case out of
        Inl e \<Rightarrow> False
      | Inr r \<Rightarrow>
          (case resp_items r of
             None \<Rightarrow> False
           | Some items \<Rightarrow> list_ex (\<lambda>item. item_path item = ''/'') items))"

text \<open>
  A gateway call succeeded: the three creations gave an identifier, a listing shows the
  root resource, and a wiring call returned a response.
\<close>

fun call_succeeded :: "request \<Rightarrow> outcome \<Rightarrow> bool" where
  "call_succeeded (CreateRestApi n d t) out = gives_id out"
| "call_succeeded (GetResources a) out = lists_root out"
| "call_succeeded (CreateResource a p part) out = gives_id out"
| "call_succeeded (CreateDeployment a s d) out = gives_id out"
| "call_succeeded q out = (\<not> isl out)"

fun all_calls_succeeded :: "event list \<Rightarrow> bool" where
  "all_calls_succeeded [] = True"
| "all_calls_succeeded (Call q out # evs) = (call_succeeded q out \<and> all_calls_succeeded evs)"
| "all_calls_succeeded (e # evs) = all_calls_succeeded evs"

text \<open>The four requests that wire one resource, in the order the source sends them.\<close>

definition wiring_calls :: "string \<Rightarrow> string \<Rightarrow> string \<Rightarrow> string \<Rightarrow> request list" where
  "wiring_calls api_id resource_id http_method body =
     [PutMethod api_id resource_id http_method ''NONE'',
      PutMethodResponse api_id resource_id http_method ''200'' [(''application/json'', ''Empty'')],
      PutIntegration api_id resource_id http_method ''MOCK''
        [(''application/json'', json_dumps [(''statusCode'', JInt 200)])],
      PutIntegrationResponse api_id resource_id http_method ''200''
        [(''application/json'', json_dumps [(''statusCode'', JInt 200), (''body'', JStr body)])]]"

fun is_wiring :: "request \<Rightarrow> bool" where
  "is_wiring (PutMethod a r m auth) = True"
| "is_wiring (PutMethodResponse a r m sc models) = True"
| "is_wiring (PutIntegration a r m t tmpl) = True"
| "is_wiring (PutIntegrationResponse a r m sc tmpl) = True"
| "is_wiring q = False"

fun is_deployment :: "request \<Rightarrow> bool" where
  "is_deployment (CreateDeployment a s d) = True"
| "is_deployment q = False"

fun is_api_creation :: "request \<Rightarrow> bool" where
  "is_api_creation (CreateRestApi n d t) = True"
| "is_api_creation q = False"

fun is_child_creation :: "request \<Rightarrow> bool" where
  "is_child_creation (CreateResource a p part) = True"
| "is_child_creation q = False"

text \<open>
  Time: a run lasts at least as long as its blocking waits, so the time between two
  events is at least the sum of the \<open>Sleep\<close>s between them.
\<close>

fun waited :: "event list \<Rightarrow> nat" where
  "waited [] = 0"
| "waited (Sleep n # evs) = n + waited evs"
| "waited (e # evs) = waited evs"

text \<open>The line each wiring function prints in its \<open>except ClientError\<close> branch.\<close>

fun wiring_error_line :: "request \<Rightarrow> string \<Rightarrow> string" where
  "wiring_error_line (PutMethod a r m auth) msg = ''Error creating method: '' @ msg"
| "wiring_error_line (PutMethodResponse a r m sc models) msg =
     ''Error creating method response: '' @ msg"
| "wiring_error_line (PutIntegration a r m t tmpl) msg = ''Error setting integration: '' @ msg"
| "wiring_error_line (PutIntegrationResponse a r m sc tmpl) msg =
     ''Error setting integration response: '' @ msg"
| "wiring_error_line q msg = msg"

text \<open>
  The request that follows a wiring request in \<open>setup_rest_api_gateway\<close>: the next step of
  the same resource, and after a resource's last step the creation of \<open>/test\<close> (root
  resource) or the verification listing (child resource).
\<close>

fun next_call :: "request \<Rightarrow> request \<Rightarrow> bool" where
  "next_call (PutMethod a r m auth) q' =
     (q' = PutMethodResponse a r m ''200'' [(''application/json'', ''Empty'')])"
| "next_call (PutMethodResponse a r m sc models) q' =
     (q' = PutIntegration a r m ''MOCK''
             [(''application/json'', json_dumps [(''statusCode'', JInt 200)])])"
| "next_call (PutIntegration a r m t tmpl) q' =
     (case q' of
        PutIntegrationResponse a' r' m' sc tmpl' \<Rightarrow> a' = a \<and> r' = r \<and> m' = m \<and> sc = ''200''
      | _ \<Rightarrow> False)"
| "next_call (PutIntegrationResponse a r m sc tmpl) q' =
     (q' = CreateResource a r ''test'' \<or> q' = GetResources a)"
| "next_call q q' = False"

section \<open>Example gateways\<close>

text \<open>A gateway that raises the same exception on every request.\<close>

definition failing_gateway :: "exn \<Rightarrow> unit gateway" where
  "failing_gateway e g q = (Inl e, g)"

text \<open>A gateway that answers every request with the same resource listing.\<close>

definition listing_gateway :: "item list \<Rightarrow> unit gateway" where
  "listing_gateway items g q = (Inr (Response None (Some items)), g)"

text \<open>
  A gateway whose state is the resources of its one API: creating the API leaves the root
  resource, creating a resource adds it, a listing shows them.
\<close>

fun demo_gateway :: "item list gateway" where
  "demo_gateway rs (CreateRestApi n d t) =
     (Inr (Response (Some ''api1'') None), [Item ''root1'' ''/''])"
| "demo_gateway rs (GetResources a) = (Inr (Response None (Some rs)), rs)"
| "demo_gateway rs (CreateResource a p part) =
     (Inr (Response (Some ''child1'') None), rs @ [Item ''child1'' (''/'' @ part)])"
| "demo_gateway rs (CreateDeployment a s d) = (Inr (Response (Some ''dep1'') None), rs)"
| "demo_gateway rs q = (Inr (Response None None), rs)"

text \<open>A gateway whose new API shows no resource of path \<open>/\<close>.\<close>

fun rootless_gateway :: "item list gateway" where
  "rootless_gateway rs (CreateRestApi n d t) =
     (Inr (Response (Some ''api1'') None), [Item ''c1'' ''/test''])"
| "rootless_gateway rs q = demo_gateway rs q"

text \<open>Like \<open>demo_gateway\<close>, with every \<open>put_method_response\<close> refused by the service.\<close>

fun flaky_gateway :: "item list gateway" where
  "flaky_gateway rs (PutMethodResponse a r m sc models) = (Inl (ClientError ''conflict''), rs)"
| "flaky_gateway rs q = demo_gateway rs q"

text \<open>Like \<open>demo_gateway\<close>, with the connection lost at the first \<open>put_method\<close>.\<close>

fun unreachable_gateway :: "item list gateway" where
  "unreachable_gateway rs (PutMethod a r m auth) =
     (Inl (BotoCoreError ''Could not connect to the endpoint URL''), rs)"
| "unreachable_gateway rs q = demo_gateway rs q"

text \<open>Like \<open>demo_gateway\<close>, with \<open>create_resource\<close> refused by the service.\<close>

fun childless_gateway :: "item list gateway" where
  "childless_gateway rs (CreateResource a p part) = (Inl (ClientError ''limit exceeded''), rs)"
| "childless_gateway rs q = demo_gateway rs q"

section \<open>A run as a function of the gateway's answers\<close>

text \<open>
  The definitions of this section serve the proofs. Each function of the adapter is one
  exchange with the gateway: it sends one request, and what it returns and prints depends
  on the answer alone. The events of a whole run are then a function of the thirteen
  answers, proved equal to the events of \<open>setup_rest_api_gateway\<close> below.
\<close>

definition state_of :: "(exn + 'a) \<times> event list \<times> 'g \<Rightarrow> 'g" where
  "state_of t = snd (snd t)"

definition step ::
  "'g gateway \<Rightarrow> request \<Rightarrow> (outcome \<Rightarrow> exn + 'a) \<Rightarrow> (outcome \<Rightarrow> event list) \<Rightarrow> ('g, 'a) prog" where
  "step gw q R B g = (case gw g q of (out, g') \<Rightarrow> (R out, B out, g'))"

text \<open>An answer that leaves a wiring function as an exception: any but \<open>ClientError\<close>.\<close>

definition escapes :: "outcome \<Rightarrow> bool" where
  "escapes out =
     (case out of Inl e \<Rightarrow> (case e of ClientError _ \<Rightarrow> False | _ \<Rightarrow> True) | Inr _ \<Rightarrow> False)"

definition step_line :: "string \<Rightarrow> string \<Rightarrow> outcome \<Rightarrow> string" where
  "step_line okmsg errprefix out =
     (case out of
        Inl e \<Rightarrow> (case e of ClientError m \<Rightarrow> errprefix @ m | _ \<Rightarrow> okmsg)
      | Inr _ \<Rightarrow> okmsg)"

definition step_block :: "request \<Rightarrow> string \<Rightarrow> string \<Rightarrow> outcome \<Rightarrow> event list" where
  "step_block q okmsg errprefix out =
     Call q out # (if escapes out then [] else [Print (step_line okmsg errprefix out)])"

text \<open>The same for the functions that subscript the response with \<open>id\<close>.\<close>

definition id_escapes :: "outcome \<Rightarrow> bool" where
  "id_escapes out =
     (case out of
        Inl e \<Rightarrow> (case e of ClientError _ \<Rightarrow> False | _ \<Rightarrow> True)
      | Inr r \<Rightarrow> resp_id r = None)"

definition id_exn :: "outcome \<Rightarrow> exn" where
  "id_exn out = (case out of Inl e \<Rightarrow> e | Inr r \<Rightarrow> KeyError ''id'')"

definition id_result :: "outcome \<Rightarrow> string option" where
  "id_result out = (case out of Inl e \<Rightarrow> None | Inr r \<Rightarrow> resp_id r)"

definition id_line :: "(string \<Rightarrow> string) \<Rightarrow> string \<Rightarrow> outcome \<Rightarrow> string" where
  "id_line okmsg errprefix out =
     (case out of
        Inl e \<Rightarrow> (case e of ClientError m \<Rightarrow> errprefix @ m | _ \<Rightarrow> [])
      | Inr r \<Rightarrow> okmsg (py_str (resp_id r)))"

definition id_block :: "request \<Rightarrow> (string \<Rightarrow> string) \<Rightarrow> string \<Rightarrow> outcome \<Rightarrow> event list" where
  "id_block q okmsg errprefix out =
     Call q out # (if id_escapes out then [] else [Print (id_line okmsg errprefix out)])"

definition root_of :: "outcome \<Rightarrow> exn + string" where
  "root_of out =
     (case out of
        Inl e \<Rightarrow> Inl e
      | Inr r \<Rightarrow>
          (case resp_items r of
             None \<Rightarrow> Inl (KeyError ''items'')
           | Some items \<Rightarrow>
               (case filter (\<lambda>item. item_path item = ''/'') items of
                  [] \<Rightarrow> Inl StopIteration
                | i # _ \<Rightarrow> Inr (item_id i))))"

definition root_block :: "string \<Rightarrow> outcome \<Rightarrow> event list" where
  "root_block a out =
     Call (GetResources a) out #
       (case root_of out of Inl _ \<Rightarrow> [] | Inr root \<Rightarrow> [Print (''Root resource ID: '' @ root)])"

definition listing_of :: "outcome \<Rightarrow> exn + unit" where
  "listing_of out =
     (case out of
        Inl e \<Rightarrow> Inl e
      | Inr r \<Rightarrow> (case resp_items r of None \<Rightarrow> Inl (KeyError ''items'') | Some items \<Rightarrow> Inr ()))"

definition listing_block :: "string \<Rightarrow> outcome \<Rightarrow> event list" where
  "listing_block a out =
     Call (GetResources a) out #
       (case out of
          Inl e \<Rightarrow> []
        | Inr r \<Rightarrow>
            Print (CHR 0x0A # ''Current Resources:'') #
              (case resp_items r of
                 None \<Rightarrow> []
               | Some items \<Rightarrow>
                   map (\<lambda>item. Print (''  Path: '' @ item_path item @ '', ID: '' @ item_id item))
                     items))"

definition invoke_lines :: "string \<Rightarrow> event list" where
  "invoke_lines a = events_of (get_invoke_url a ())"

definition method_call :: "string \<Rightarrow> string \<Rightarrow> string \<Rightarrow> request" where
  "method_call a r m = PutMethod a r m ''NONE''"

definition method_response_call :: "string \<Rightarrow> string \<Rightarrow> string \<Rightarrow> request" where
  "method_response_call a r m =
     PutMethodResponse a r m ''200'' [(''application/json'', ''Empty'')]"

definition integration_call :: "string \<Rightarrow> string \<Rightarrow> string \<Rightarrow> request" where
  "integration_call a r m =
     PutIntegration a r m ''MOCK'' [(''application/json'', json_dumps [(''statusCode'', JInt 200)])]"

definition integration_response_call :: "string \<Rightarrow> string \<Rightarrow> string \<Rightarrow> string \<Rightarrow> request" where
  "integration_response_call a r m b =
     PutIntegrationResponse a r m ''200''
       [(''application/json'', json_dumps [(''statusCode'', JInt 200), (''body'', JStr b)])]"

definition create_api_call :: "string \<Rightarrow> request" where
  "create_api_call name =
     CreateRestApi name ''A test API created with LocalStack and Boto3'' [''REGIONAL'']"

definition deployment_call :: "string \<Rightarrow> string \<Rightarrow> request" where
  "deployment_call a stage = CreateDeployment a stage ''Deployment with full mock setup''"

definition wire_events ::
  "string \<Rightarrow> string \<Rightarrow> string \<Rightarrow> string \<Rightarrow> outcome \<Rightarrow> outcome \<Rightarrow> outcome \<Rightarrow> outcome
     \<Rightarrow> event list \<Rightarrow> event list" where
  "wire_events a r m b w1 w2 w3 w4 rest =
     step_block (method_call a r m)
       (''Created '' @ m @ '' method on resource '' @ r) ''Error creating method: '' w1 @
     (if escapes w1 then [] else
     step_block (method_response_call a r m)
       (''Created method response (200) for '' @ m @ '' on resource '' @ r)
       ''Error creating method response: '' w2 @
     (if escapes w2 then [] else
     step_block (integration_call a r m)
       (''Set mock integration for '' @ m @ '' on resource '' @ r)
       ''Error setting integration: '' w3 @
     (if escapes w3 then [] else
     step_block (integration_response_call a r m b)
       (''Set mock integration response for '' @ m @ '' on resource '' @ r)
       ''Error setting integration response: '' w4 @
     (if escapes w4 then [] else rest))))"

definition deploy_events :: "string \<Rightarrow> outcome \<Rightarrow> event list" where
  "deploy_events a o7 =
     Sleep 10 #
     id_block (deployment_call a ''prod'')
       (\<lambda>i. ''Deployed API to stage '' @ [CHR 0x27] @ ''prod'' @ [CHR 0x27]
              @ ''. Deployment ID: '' @ i)
       ''Error deploying API: '' o7
     @ (if truthy (id_result o7) then invoke_lines a else [])"

definition listing_events :: "string \<Rightarrow> outcome \<Rightarrow> outcome \<Rightarrow> event list" where
  "listing_events a o6 o7 =
     listing_block a o6 @ (if isl (listing_of o6) then [] else deploy_events a o7)"

definition child_events ::
  "string \<Rightarrow> string \<Rightarrow> string \<Rightarrow> outcome \<Rightarrow> (string \<Rightarrow> event list) \<Rightarrow> event list" where
  "child_events a root m o4 rest =
     id_block (CreateResource a root ''test'')
       (\<lambda>i. ''Created child resource /'' @ ''test'' @ '' (ID: '' @ i @ '')'')
       ''Error creating child resource: '' o4
     @ (if id_escapes o4 then []
        else (case truthy_value (id_result o4) of
                None \<Rightarrow> [Print ''Failed to create /test resource; skipping.'']
              | Some child \<Rightarrow> rest child))"

definition root_events :: "string \<Rightarrow> outcome \<Rightarrow> (string \<Rightarrow> event list) \<Rightarrow> event list" where
  "root_events a o2 rest =
     root_block a o2 @ (case root_of o2 of Inl _ \<Rightarrow> [] | Inr root \<Rightarrow> rest root)"

definition api_events :: "string \<Rightarrow> outcome \<Rightarrow> (string \<Rightarrow> event list) \<Rightarrow> event list" where
  "api_events name o1 rest =
     id_block (create_api_call name)
       (\<lambda>i. ''Created REST API: '' @ name @ '' (ID: '' @ i @ '')'') ''Error creating API: '' o1
     @ (if id_escapes o1 then []
        else (case truthy_value (id_result o1) of None \<Rightarrow> [] | Some a \<Rightarrow> rest a))"

definition run_events ::
  "string \<Rightarrow> string \<Rightarrow> outcome \<Rightarrow> outcome \<Rightarrow> outcome \<Rightarrow> outcome \<Rightarrow> outcome \<Rightarrow> outcome \<Rightarrow> outcome
     \<Rightarrow> outcome \<Rightarrow> outcome \<Rightarrow> outcome \<Rightarrow> outcome \<Rightarrow> outcome \<Rightarrow> outcome \<Rightarrow> event list" where
  "run_events name m o1 o2 r1 r2 r3 r4 o4 c1 c2 c3 c4 o6 o7 =
     api_events name o1 (\<lambda>a.
     root_events a o2 (\<lambda>root.
     wire_events a root m ''Hello from root!'' r1 r2 r3 r4
       (child_events a root m o4 (\<lambda>child.
        wire_events a child m ''Hello from /test!'' c1 c2 c3 c4 (listing_events a o6 o7)))))"

text \<open>
  Checks on a list of events, each a recursion over the list. \<open>waits_from w\<close>: with \<open>w\<close>
  the time waited since the last call, every deployment call comes after a wait of at
  least ten, and no call follows it. \<open>continued\<close>: every wiring call that raised
  \<open>ClientError\<close> is followed by its error line and then by the next call.
\<close>

fun waits_from :: "nat \<Rightarrow> event list \<Rightarrow> bool" where
  "waits_from w [] = True"
| "waits_from w (Sleep n # evs) = waits_from (w + n) evs"
| "waits_from w (Print s # evs) = waits_from w evs"
| "waits_from w (Call q out # evs) =
     (if is_deployment q then 10 \<le> w \<and> requests evs = [] else waits_from 0 evs)"

fun plain :: "event list \<Rightarrow> bool" where
  "plain [] = True"
| "plain (Call q out # evs) = (\<not> is_deployment q \<and> plain evs)"
| "plain (Sleep n # evs) = False"
| "plain (Print s # evs) = plain evs"

fun reported_then :: "request \<Rightarrow> string \<Rightarrow> event list \<Rightarrow> bool" where
  "reported_then q msg (Print s # Call q' out' # evs) =
     (s = wiring_error_line q msg \<and> next_call q q')"
| "reported_then q msg evs = False"

fun client_error_of :: "outcome \<Rightarrow> string option" where
  "client_error_of (Inl (ClientError msg)) = Some msg"
| "client_error_of out = None"

fun continued :: "event list \<Rightarrow> bool" where
  "continued [] = True"
| "continued (Call q out # evs) =
     ((case client_error_of out of
         Some msg \<Rightarrow> \<not> is_wiring q \<or> reported_then q msg evs
       | None \<Rightarrow> True) \<and> continued evs)"
| "continued (e # evs) = continued evs"

fun quiet :: "event list \<Rightarrow> bool" where
  "quiet [] = True"
| "quiet (Call q out # evs) = (\<not> is_wiring q \<and> quiet evs)"
| "quiet (e # evs) = quiet evs"

section \<open>Each function as one exchange with the gateway\<close>

lemmas calls = method_call_def method_response_call_def integration_call_def
  integration_response_call_def create_api_call_def deployment_call_def

lemmas prims = bind_def except_ClientError_def client_call_def py_print_def return_def raise_def
  time_sleep_def subscript_id_def subscript_items_def

lemma create_method_run:
  "create_method gw a r m = step gw (method_call a r m)
      (\<lambda>out. if escapes out then Inl (projl out)
             else Inr (case out of Inr r \<Rightarrow> Some r | Inl _ \<Rightarrow> None))
      (step_block (method_call a r m)
         (''Created '' @ m @ '' method on resource '' @ r) ''Error creating method: '')"
  by (rule ext)
     (simp add: create_method_def prims step_def calls escapes_def step_block_def step_line_def
        split: prod.splits sum.splits exn.splits)

lemma create_method_response_run:
  "create_method_response gw a r m = step gw (method_response_call a r m)
      (\<lambda>out. if escapes out then Inl (projl out) else Inr ())
      (step_block (method_response_call a r m)
         (''Created method response (200) for '' @ m @ '' on resource '' @ r)
         ''Error creating method response: '')"
  by (rule ext)
     (simp add: create_method_response_def prims step_def calls escapes_def step_block_def
        step_line_def split: prod.splits sum.splits exn.splits)

lemma set_mock_integration_run:
  "set_mock_integration gw a r m b = step gw (integration_call a r m)
      (\<lambda>out. if escapes out then Inl (projl out) else Inr ())
      (step_block (integration_call a r m)
         (''Set mock integration for '' @ m @ '' on resource '' @ r)
         ''Error setting integration: '')"
  by (rule ext)
     (simp add: set_mock_integration_def prims step_def calls escapes_def step_block_def
        step_line_def split: prod.splits sum.splits exn.splits)

lemma set_mock_integration_response_run:
  "set_mock_integration_response gw a r m b = step gw (integration_response_call a r m b)
      (\<lambda>out. if escapes out then Inl (projl out) else Inr ())
      (step_block (integration_response_call a r m b)
         (''Set mock integration response for '' @ m @ '' on resource '' @ r)
         ''Error setting integration response: '')"
  by (rule ext)
     (simp add: set_mock_integration_response_def prims step_def calls escapes_def
        step_block_def step_line_def split: prod.splits sum.splits exn.splits)

lemma create_rest_api_run:
  "create_rest_api gw name = step gw (create_api_call name)
      (\<lambda>out. if id_escapes out then Inl (id_exn out) else Inr (id_result out))
      (id_block (create_api_call name)
         (\<lambda>i. ''Created REST API: '' @ name @ '' (ID: '' @ i @ '')'') ''Error creating API: '')"
  by (rule ext)
     (simp add: create_rest_api_def prims step_def calls id_escapes_def id_exn_def id_line_def
        id_result_def id_block_def split: prod.splits sum.splits exn.splits option.splits)

lemma create_child_resource_run:
  "create_child_resource gw a p part = step gw (CreateResource a p part)
      (\<lambda>out. if id_escapes out then Inl (id_exn out) else Inr (id_result out))
      (id_block (CreateResource a p part)
         (\<lambda>i. ''Created child resource /'' @ part @ '' (ID: '' @ i @ '')'')
         ''Error creating child resource: '')"
  by (rule ext)
     (simp add: create_child_resource_def prims step_def id_escapes_def id_exn_def id_line_def
        id_result_def id_block_def split: prod.splits sum.splits exn.splits option.splits)

lemma create_deployment_run:
  "create_deployment gw a stage = step gw (deployment_call a stage)
      (\<lambda>out. if id_escapes out then Inl (id_exn out) else Inr (id_result out))
      (\<lambda>out. Sleep 10 # id_block (deployment_call a stage)
         (\<lambda>i. ''Deployed API to stage '' @ [CHR 0x27] @ stage @ [CHR 0x27]
                @ ''. Deployment ID: '' @ i)
         ''Error deploying API: '' out)"
  by (rule ext)
     (simp add: create_deployment_def prims step_def calls id_escapes_def id_exn_def id_line_def
        id_result_def id_block_def split: prod.splits sum.splits exn.splits option.splits)

lemma py_next_map:
  "py_next (map f xs) g =
     (case xs of [] \<Rightarrow> (Inl StopIteration, [], g) | x # _ \<Rightarrow> (Inr (f x), [], g))"
  by (cases xs) (simp_all add: prims)

lemma get_root_resource_id_run:
  "get_root_resource_id gw a = step gw (GetResources a) root_of (root_block a)"
  by (rule ext)
     (auto simp: get_root_resource_id_def prims step_def root_of_def root_block_def py_next_map
        split: prod.splits sum.splits option.splits list.splits)

lemma print_resources_loop_run:
  "print_resources_loop items g =
     (Inr (), map (\<lambda>item. Print (''  Path: '' @ item_path item @ '', ID: '' @ item_id item)) items, g)"
  by (induction items) (simp_all add: prims)

lemma print_resources_run:
  "print_resources gw a = step gw (GetResources a) listing_of (listing_block a)"
  by (rule ext)
     (simp add: print_resources_def prims step_def print_resources_loop_run listing_of_def
        listing_block_def split: prod.splits sum.splits option.splits list.splits)

lemma get_invoke_url_run:
  "get_invoke_url a g =
     (Inr (''http://'' @ a @ ''.execute-api.localhost.localstack.cloud:4566/prod''),
      invoke_lines a, g)"
  by (simp add: get_invoke_url_def prims Let_def invoke_lines_def events_of_def)

lemmas runs = create_rest_api_run get_root_resource_id_run create_method_run
  create_method_response_run set_mock_integration_run set_mock_integration_response_run
  create_child_resource_run print_resources_run create_deployment_run

lemma proj_simps:
  "events_of (r, evs, g) = evs" "result_of (r, evs, g) = r" "state_of (r, evs, g) = g"
  by (simp_all add: events_of_def result_of_def state_of_def)

lemma events_bind_step:
  "events_of (bind (step gw q R B) k g) =
     B (fst (gw g q)) @
       (case R (fst (gw g q)) of Inl e \<Rightarrow> [] | Inr x \<Rightarrow> events_of (k x (snd (gw g q))))"
  by (simp add: bind_def step_def events_of_def split: prod.splits sum.splits)

lemma events_step: "events_of (step gw q R B g) = B (fst (gw g q))"
  by (simp add: step_def events_of_def split: prod.splits)

lemma events_invoke: "events_of (bind (get_invoke_url a) (\<lambda>_. return ()) g) = invoke_lines a"
  by (simp add: bind_def get_invoke_url_run return_def proj_simps)

lemma events_return: "events_of (return x g) = []"
  by (simp add: return_def proj_simps)

lemma events_raise: "events_of (raise e g) = []"
  by (simp add: raise_def proj_simps)

lemma events_print: "events_of (py_print s g) = [Print s]"
  by (simp add: py_print_def proj_simps)

lemma events_case_option:
  "events_of ((case x of None \<Rightarrow> p | Some y \<Rightarrow> q y) g) =
     (case x of None \<Rightarrow> events_of (p g) | Some y \<Rightarrow> events_of (q y g))"
  by (cases x) simp_all

lemma truthy_id_result: "truthy (id_result out) \<Longrightarrow> \<not> id_escapes out"
  by (cases out) (auto simp: id_result_def id_escapes_def elim: truthy.elims)

section \<open>The events of a run are those of the thirteen answers\<close>

lemma run_events_exist:
  "\<exists>o1 o2 r1 r2 r3 r4 o4 c1 c2 c3 c4 o6 o7.
     events_of (setup_rest_api_gateway gw name m g) =
       run_events name m o1 o2 r1 r2 r3 r4 o4 c1 c2 c3 c4 o6 o7"
proof -
  obtain o1 g1 where 1: "gw g (create_api_call name) = (o1, g1)" by fastforce
  show ?thesis
  proof (cases "truthy_value (id_result o1)")
    case None
    then have "events_of (setup_rest_api_gateway gw name m g) =
        run_events name m o1 o1 o1 o1 o1 o1 o1 o1 o1 o1 o1 o1 o1"
      by (simp add: setup_rest_api_gateway_def runs events_bind_step 1 run_events_def
            api_events_def events_case_option events_raise)
    then show ?thesis by blast
  next
    case (Some a)
    obtain o2 g2 where 2: "gw g1 (GetResources a) = (o2, g2)" by fastforce
    show ?thesis
    proof (cases "root_of o2")
      case (Inl e)
      then have "events_of (setup_rest_api_gateway gw name m g) =
          run_events name m o1 o2 o1 o1 o1 o1 o1 o1 o1 o1 o1 o1 o1"
        using Some
        by (simp add: setup_rest_api_gateway_def runs events_bind_step 1 2 run_events_def
            api_events_def root_events_def events_case_option events_raise)
      then show ?thesis by blast
    next
      case (Inr root)
      obtain r1 g3 where 3: "gw g2 (method_call a root m) = (r1, g3)" by fastforce
      obtain r2 g4 where 4: "gw g3 (method_response_call a root m) = (r2, g4)" by fastforce
      obtain r3 g5 where 5: "gw g4 (integration_call a root m) = (r3, g5)" by fastforce
      obtain r4 g6 where 6:
        "gw g5 (integration_response_call a root m ''Hello from root!'') = (r4, g6)"
        by fastforce
      obtain o4 g7 where 7: "gw g6 (CreateResource a root ''test'') = (o4, g7)" by fastforce
      show ?thesis
      proof (cases "truthy_value (id_result o4)")
        case None
        then have "events_of (setup_rest_api_gateway gw name m g) =
            run_events name m o1 o2 r1 r2 r3 r4 o4 o1 o1 o1 o1 o1 o1"
          using Some Inr
          by (simp add: setup_rest_api_gateway_def runs events_bind_step 1 2 3 4 5 6 7
              run_events_def api_events_def root_events_def wire_events_def child_events_def
              events_case_option events_raise events_print)
        then show ?thesis by blast
      next
        case child: (Some child)
        obtain c1 g8 where 8: "gw g7 (method_call a child m) = (c1, g8)" by fastforce
        obtain c2 g9 where 9: "gw g8 (method_response_call a child m) = (c2, g9)" by fastforce
        obtain c3 g10 where 10: "gw g9 (integration_call a child m) = (c3, g10)" by fastforce
        obtain c4 g11 where 11:
          "gw g10 (integration_response_call a child m ''Hello from /test!'') = (c4, g11)"
          by fastforce
        obtain o6 g12 where 12: "gw g11 (GetResources a) = (o6, g12)" by fastforce
        obtain o7 g13 where 13: "gw g12 (deployment_call a ''prod'') = (o7, g13)" by fastforce
        have "events_of (setup_rest_api_gateway gw name m g) =
            run_events name m o1 o2 r1 r2 r3 r4 o4 c1 c2 c3 c4 o6 o7"
          using Some Inr child
          by (simp add: setup_rest_api_gateway_def runs events_bind_step
              1 2 3 4 5 6 7 8 9 10 11 12 13
              run_events_def api_events_def deploy_events_def listing_events_def events_invoke
              events_return root_events_def wire_events_def child_events_def events_case_option
              events_raise events_print truthy_id_result
              split: sum.splits)
        then show ?thesis by blast
      qed
    qed
  qed
qed

section \<open>Requests and successes of the blocks\<close>

lemma requests_append: "requests (xs @ ys) = requests xs @ requests ys"
  by (induction xs rule: requests.induct) simp_all

lemma requests_prints: "requests (map (\<lambda>i. Print (f i)) xs) = []"
  by (induction xs) simp_all

lemma requests_blocks:
  "requests (step_block q ok err out) = [q]"
  "requests (id_block q f err out) = [q]"
  "requests (root_block a out) = [GetResources a]"
  "requests (listing_block a out) = [GetResources a]"
  "requests (invoke_lines a) = []"
  by (simp_all add: step_block_def id_block_def root_block_def listing_block_def requests_prints
      invoke_lines_def get_invoke_url_def Let_def prims events_of_def
      split: sum.splits option.splits)

lemma succ_append:
  "all_calls_succeeded (xs @ ys) = (all_calls_succeeded xs \<and> all_calls_succeeded ys)"
  by (induction xs rule: all_calls_succeeded.induct) simp_all

lemma succ_prints: "all_calls_succeeded (map (\<lambda>i. Print (f i)) xs)"
  by (induction xs) simp_all

lemma succ_blocks:
  "all_calls_succeeded (step_block q ok err out) = call_succeeded q out"
  "all_calls_succeeded (id_block q f err out) = call_succeeded q out"
  "all_calls_succeeded (root_block a out) = lists_root out"
  "all_calls_succeeded (listing_block a out) = lists_root out"
  "all_calls_succeeded (invoke_lines a)"
  by (simp_all add: step_block_def id_block_def root_block_def listing_block_def succ_prints
      invoke_lines_def get_invoke_url_def Let_def prims events_of_def
      split: sum.splits option.splits)

lemma escapes_isl: "escapes out \<Longrightarrow> isl out"
  by (cases out) (simp_all add: escapes_def)

lemma gives_id_result: "gives_id out \<Longrightarrow> \<exists>i. truthy_value (id_result out) = Some i"
  by (cases out) (auto simp: gives_id_def id_result_def elim!: truthy.elims)

lemma gives_id_not_escapes: "gives_id out \<Longrightarrow> \<not> id_escapes out"
  by (cases out) (auto simp: gives_id_def id_escapes_def elim!: truthy.elims)

lemma not_gives_id: "\<not> gives_id out \<Longrightarrow> truthy_value (id_result out) = None"
  by (cases out) (auto simp: gives_id_def id_result_def elim: truthy.elims truthy_value.elims)

lemma lists_root_of: "lists_root out \<Longrightarrow> \<exists>root. root_of out = Inr root"
  by (cases out)
     (auto simp: lists_root_def root_of_def list_ex_iff filter_empty_conv
        split: option.splits list.splits)

lemma lists_root_listing: "lists_root out \<Longrightarrow> \<not> isl (listing_of out)"
  by (cases out) (auto simp: lists_root_def listing_of_def split: option.splits)

lemma wire_succeeded:
  assumes "all_calls_succeeded (wire_events a r m b w1 w2 w3 w4 rest)"
  shows "all_calls_succeeded rest"
    and "requests (wire_events a r m b w1 w2 w3 w4 rest) = wiring_calls a r m b @ requests rest"
  using assms
  by (auto simp: wire_events_def succ_append succ_blocks requests_append requests_blocks
      wiring_calls_def calls dest: escapes_isl split: if_splits)

lemma successful_events:
  assumes "all_calls_succeeded (run_events name m o1 o2 r1 r2 r3 r4 o4 c1 c2 c3 c4 o6 o7)"
  shows "\<exists>a root child. requests (run_events name m o1 o2 r1 r2 r3 r4 o4 c1 c2 c3 c4 o6 o7) =
     [CreateRestApi name ''A test API created with LocalStack and Boto3'' [''REGIONAL''],
      GetResources a]
      @ wiring_calls a root m ''Hello from root!''
      @ [CreateResource a root ''test'']
      @ wiring_calls a child m ''Hello from /test!''
      @ [GetResources a, CreateDeployment a ''prod'' ''Deployment with full mock setup'']"
proof -
  from assms have s1: "gives_id o1"
    by (simp add: run_events_def api_events_def succ_append succ_blocks create_api_call_def)
  then obtain a where a: "truthy_value (id_result o1) = Some a" "\<not> id_escapes o1"
    using gives_id_result gives_id_not_escapes by blast
  from assms a have s2: "lists_root o2"
    by (simp add: run_events_def api_events_def root_events_def succ_append succ_blocks)
  then obtain root where root: "root_of o2 = Inr root"
    using lists_root_of by blast
  have ev: "run_events name m o1 o2 r1 r2 r3 r4 o4 c1 c2 c3 c4 o6 o7 =
     id_block (create_api_call name)
       (\<lambda>i. ''Created REST API: '' @ name @ '' (ID: '' @ i @ '')'') ''Error creating API: '' o1
      @ root_block a o2 @ wire_events a root m ''Hello from root!'' r1 r2 r3 r4
       (child_events a root m o4 (\<lambda>child.
        wire_events a child m ''Hello from /test!'' c1 c2 c3 c4 (listing_events a o6 o7)))"
    using a root by (simp add: run_events_def api_events_def root_events_def)
  from assms have s3: "all_calls_succeeded (wire_events a root m ''Hello from root!'' r1 r2 r3 r4
       (child_events a root m o4 (\<lambda>child.
        wire_events a child m ''Hello from /test!'' c1 c2 c3 c4 (listing_events a o6 o7))))"
    unfolding ev by (simp add: succ_append)
  note w1 = wire_succeeded[OF s3]
  from w1(1) have s4: "gives_id o4"
    by (simp add: child_events_def succ_append succ_blocks)
  then obtain child where child: "truthy_value (id_result o4) = Some child" "\<not> id_escapes o4"
    using gives_id_result gives_id_not_escapes by blast
  have ev4: "child_events a root m o4 (\<lambda>child.
        wire_events a child m ''Hello from /test!'' c1 c2 c3 c4 (listing_events a o6 o7))
     = id_block (CreateResource a root ''test'')
         (\<lambda>i. ''Created child resource /'' @ ''test'' @ '' (ID: '' @ i @ '')'')
         ''Error creating child resource: '' o4
       @ wire_events a child m ''Hello from /test!'' c1 c2 c3 c4 (listing_events a o6 o7)"
    using child by (simp add: child_events_def)
  from w1(1) have s5: "all_calls_succeeded
      (wire_events a child m ''Hello from /test!'' c1 c2 c3 c4 (listing_events a o6 o7))"
    unfolding ev4 by (simp add: succ_append)
  note w2 = wire_succeeded[OF s5]
  from w2(1) have s6: "lists_root o6"
    by (simp add: listing_events_def succ_append succ_blocks)
  have "requests (listing_events a o6 o7) =
      [GetResources a, CreateDeployment a ''prod'' ''Deployment with full mock setup'']"
    using lists_root_listing[OF s6]
    by (simp add: listing_events_def deploy_events_def requests_append requests_blocks
        deployment_call_def)
  moreover have "requests (child_events a root m o4 (\<lambda>child.
        wire_events a child m ''Hello from /test!'' c1 c2 c3 c4 (listing_events a o6 o7)))
      = CreateResource a root ''test'' # wiring_calls a child m ''Hello from /test!''
          @ requests (listing_events a o6 o7)"
    unfolding ev4 by (simp add: requests_append requests_blocks w2(2))
  ultimately have "requests (run_events name m o1 o2 r1 r2 r3 r4 o4 c1 c2 c3 c4 o6 o7) =
     [CreateRestApi name ''A test API created with LocalStack and Boto3'' [''REGIONAL''],
      GetResources a]
      @ wiring_calls a root m ''Hello from root!''
      @ [CreateResource a root ''test'']
      @ wiring_calls a child m ''Hello from /test!''
      @ [GetResources a, CreateDeployment a ''prod'' ''Deployment with full mock setup'']"
    unfolding ev by (simp add: requests_append requests_blocks w1(2) create_api_call_def)
  then show ?thesis by blast
qed

section \<open>Where a request can stand in a run\<close>

lemma member_prints: "Call q out \<notin> set (map (\<lambda>i. Print (f i)) xs)"
  by (induction xs) simp_all

lemma member_blocks:
  "Call q out \<in> set (step_block q' ok err o') \<longleftrightarrow> q = q' \<and> out = o'"
  "Call q out \<in> set (id_block q' f err o') \<longleftrightarrow> q = q' \<and> out = o'"
  "Call q out \<in> set (root_block a o') \<longleftrightarrow> q = GetResources a \<and> out = o'"
  "Call q out \<in> set (listing_block a o') \<longleftrightarrow> q = GetResources a \<and> out = o'"
  "Call q out \<notin> set (invoke_lines a)"
  by (auto simp: step_block_def id_block_def root_block_def listing_block_def member_prints
      invoke_lines_def get_invoke_url_def Let_def prims events_of_def
      split: sum.splits option.splits)

lemma wire_member:
  assumes "Call q out \<in> set (wire_events a r m b w1 w2 w3 w4 rest)" and "\<not> is_wiring q"
  shows "Call q out \<in> set rest"
    and "requests (wire_events a r m b w1 w2 w3 w4 rest) = wiring_calls a r m b @ requests rest"
  using assms
  by (auto simp: wire_events_def member_blocks requests_append requests_blocks wiring_calls_def
      calls split: if_splits)

lemma listing_member: "Call (CreateResource x y z) out \<notin> set (listing_events a o6 o7)"
  by (simp add: listing_events_def deploy_events_def member_blocks deployment_call_def)

lemma failed_child_events:
  assumes mem: "Call (CreateResource api parent part) out
      \<in> set (run_events name m o1 o2 r1 r2 r3 r4 o4 c1 c2 c3 c4 o6 o7)"
    and no: "\<not> gives_id out"
  shows "requests (run_events name m o1 o2 r1 r2 r3 r4 o4 c1 c2 c3 c4 o6 o7) =
     [CreateRestApi name ''A test API created with LocalStack and Boto3'' [''REGIONAL''],
      GetResources api]
      @ wiring_calls api parent m ''Hello from root!''
      @ [CreateResource api parent ''test'']"
proof -
  let ?child = "\<lambda>a root. child_events a root m o4 (\<lambda>child.
        wire_events a child m ''Hello from /test!'' c1 c2 c3 c4 (listing_events a o6 o7))"
  have e1: "\<not> id_escapes o1"
    using mem
    by (auto simp: run_events_def api_events_def member_blocks create_api_call_def
        split: if_splits)
  obtain a where a: "truthy_value (id_result o1) = Some a"
    using mem e1 by (cases "truthy_value (id_result o1)")
      (auto simp: run_events_def api_events_def member_blocks create_api_call_def)
  have m2: "Call (CreateResource api parent part) out \<in> set (root_events a o2 (\<lambda>root.
       wire_events a root m ''Hello from root!'' r1 r2 r3 r4 (?child a root)))"
    using mem e1 a
    by (auto simp: run_events_def api_events_def member_blocks create_api_call_def)
  obtain root where root: "root_of o2 = Inr root"
    using m2 by (cases "root_of o2") (auto simp: root_events_def member_blocks)
  have m3: "Call (CreateResource api parent part) out
      \<in> set (wire_events a root m ''Hello from root!'' r1 r2 r3 r4 (?child a root))"
    using m2 root by (auto simp: root_events_def member_blocks)
  have w: "Call (CreateResource api parent part) out \<in> set (?child a root)"
     "requests (wire_events a root m ''Hello from root!'' r1 r2 r3 r4 (?child a root))
        = wiring_calls a root m ''Hello from root!'' @ requests (?child a root)"
    using wire_member[OF m3] by simp_all
  have here: "api = a \<and> parent = root \<and> part = ''test'' \<and> out = o4"
  proof (rule ccontr)
    assume "\<not> ?thesis"
    with w(1) have "\<exists>child. Call (CreateResource api parent part) out
        \<in> set (wire_events a child m ''Hello from /test!'' c1 c2 c3 c4 (listing_events a o6 o7))"
      by (cases "truthy_value (id_result o4)")
         (auto simp: child_events_def member_blocks split: if_splits)
    then obtain child where "Call (CreateResource api parent part) out
        \<in> set (wire_events a child m ''Hello from /test!'' c1 c2 c3 c4 (listing_events a o6 o7))"
      by blast
    from wire_member(1)[OF this] show False
      by (simp add: listing_member)
  qed
  with no have "truthy_value (id_result o4) = None"
    using not_gives_id by blast
  then have "requests (?child a root) = [CreateResource a root ''test'']"
    by (simp add: child_events_def requests_append requests_blocks)
  with w(2) a e1 root here show ?thesis
    by (simp add: run_events_def api_events_def root_events_def requests_append requests_blocks
        create_api_call_def)
qed

section \<open>The wait before the deployment\<close>

lemma waits_plain_append:
  "plain xs \<Longrightarrow> (\<And>w. waits_from w ys) \<Longrightarrow> waits_from w (xs @ ys)"
  by (induction xs arbitrary: w rule: plain.induct) simp_all

lemma plain_append: "plain (xs @ ys) = (plain xs \<and> plain ys)"
  by (induction xs rule: plain.induct) simp_all

lemma plain_prints: "plain (map (\<lambda>i. Print (f i)) xs)"
  by (induction xs) simp_all

lemma plain_blocks:
  "plain (step_block q ok err out) = (\<not> is_deployment q)"
  "plain (id_block q f err out) = (\<not> is_deployment q)"
  "plain (root_block a out)"
  "plain (listing_block a out)"
  "plain (invoke_lines a)"
  by (simp_all add: step_block_def id_block_def root_block_def listing_block_def plain_prints
      invoke_lines_def get_invoke_url_def Let_def prims events_of_def
      split: sum.splits option.splits)

lemma wiring_not_deployment:
  "\<not> is_deployment (method_call a r m)" "\<not> is_deployment (method_response_call a r m)"
  "\<not> is_deployment (integration_call a r m)"
  "\<not> is_deployment (integration_response_call a r m b)"
  by (simp_all add: calls)

lemma waits_wire:
  assumes "\<And>w. waits_from w rest"
  shows "waits_from w (wire_events a r m b w1 w2 w3 w4 rest)"
proof -
  have 4: "waits_from w (step_block (integration_response_call a r m b) ok err w4
            @ (if escapes w4 then [] else rest))" for w ok err
    by (rule waits_plain_append) (simp_all add: plain_blocks wiring_not_deployment assms)
  have 3: "waits_from w (step_block (integration_call a r m) ok err w3
            @ (if escapes w3 then [] else
               step_block (integration_response_call a r m b) ok' err' w4
            @ (if escapes w4 then [] else rest)))" for w ok err ok' err'
    by (rule waits_plain_append) (simp_all add: plain_blocks wiring_not_deployment 4)
  have 2: "waits_from w (step_block (method_response_call a r m) ok'' err'' w2
            @ (if escapes w2 then [] else
               step_block (integration_call a r m) ok err w3
            @ (if escapes w3 then [] else
               step_block (integration_response_call a r m b) ok' err' w4
            @ (if escapes w4 then [] else rest))))" for w ok err ok' err' ok'' err''
    by (rule waits_plain_append) (simp_all add: plain_blocks wiring_not_deployment 3)
  show ?thesis
    unfolding wire_events_def
    by (rule waits_plain_append) (simp_all add: plain_blocks wiring_not_deployment 2)
qed

lemma waits_deploy: "waits_from w (deploy_events a o7)"
  by (simp add: deploy_events_def id_block_def deployment_call_def requests_append
      requests_blocks)

lemma waits_listing: "waits_from w (listing_events a o6 o7)"
  unfolding listing_events_def
  by (rule waits_plain_append) (simp_all add: plain_blocks waits_deploy)

lemma waits_child:
  "waits_from w (child_events a root m o4
      (\<lambda>child. wire_events a child m b c1 c2 c3 c4 (listing_events a o6 o7)))"
  unfolding child_events_def
  by (rule waits_plain_append)
     (simp_all add: plain_blocks waits_wire waits_listing split: option.splits)

lemma waits_run: "waits_from w (run_events name m o1 o2 r1 r2 r3 r4 o4 c1 c2 c3 c4 o6 o7)"
  unfolding run_events_def api_events_def
  apply (rule waits_plain_append)
   apply (simp add: plain_blocks calls)
  apply (simp split: option.splits)
  apply (intro allI impI conjI)
  unfolding root_events_def
  apply (rule waits_plain_append)
   apply (simp add: plain_blocks)
  apply (simp add: waits_wire waits_child split: sum.splits)
  done

lemma waits_from_last:
  "waits_from w (ys @ Call d out # zs) \<Longrightarrow> is_deployment d
     \<Longrightarrow> 10 \<le> w + waited ys \<and> requests zs = []"
proof (induction ys arbitrary: w)
  case Nil
  then show ?case by simp
next
  case (Cons e ys)
  show ?case
  proof (cases e)
    case (Call q o')
    with Cons.prems have nd: "\<not> is_deployment q"
      by (auto simp: requests_append)
    with Cons.prems Call have "waits_from 0 (ys @ Call d out # zs)" by simp
    from Cons.IH[OF this Cons.prems(2)] Call show ?thesis by simp
  next
    case (Sleep n)
    with Cons.prems have "waits_from (w + n) (ys @ Call d out # zs)" by simp
    from Cons.IH[OF this Cons.prems(2)] Sleep show ?thesis by simp
  next
    case (Print s)
    with Cons.prems have "waits_from w (ys @ Call d out # zs)" by simp
    from Cons.IH[OF this Cons.prems(2)] Print show ?thesis by simp
  qed
qed

lemma waits_from_after_call:
  "waits_from w (xs @ Call q out # rest) \<Longrightarrow> requests rest \<noteq> [] \<Longrightarrow> waits_from 0 rest"
proof (induction xs arbitrary: w)
  case Nil
  then show ?case by (auto split: if_splits)
next
  case (Cons e xs)
  then show ?case
    by (cases e) (auto split: if_splits simp: requests_append)
qed

lemma waits_between:
  assumes "waits_from 0 evs"
    and "evs = before @ Call q out # between @ Call d out' # after"
    and "is_deployment d"
  shows "10 \<le> waited between \<and> requests after = []"
proof -
  have "waits_from 0 (before @ Call q out # (between @ Call d out' # after))"
    using assms by simp
  then have "waits_from 0 (between @ Call d out' # after)"
    by (rule waits_from_after_call) (simp add: requests_append)
  from waits_from_last[OF this assms(3)] show ?thesis by simp
qed

lemma waits_from_one_deployment:
  "waits_from w evs \<Longrightarrow> length (filter is_deployment (requests evs)) \<le> 1"
  by (induction w evs rule: waits_from.induct) (simp_all split: if_splits)

section \<open>A refused wiring step is reported and the run goes on\<close>

lemma continued_quiet_append: "quiet xs \<Longrightarrow> continued (xs @ ys) = continued ys"
  by (induction xs rule: quiet.induct) (simp_all split: option.splits)

lemma quiet_prints: "quiet (map (\<lambda>i. Print (f i)) xs)"
  by (induction xs) simp_all

lemma quiet_append: "quiet (xs @ ys) = (quiet xs \<and> quiet ys)"
  by (induction xs rule: quiet.induct) simp_all

lemma quiet_blocks:
  "quiet (id_block q f err out) = (\<not> is_wiring q)"
  "quiet (root_block a out)"
  "quiet (listing_block a out)"
  "quiet (invoke_lines a)"
  by (simp_all add: id_block_def root_block_def listing_block_def quiet_prints
      invoke_lines_def get_invoke_url_def Let_def prims events_of_def
      split: sum.splits option.splits)

lemma continued_quiet: "quiet xs \<Longrightarrow> continued xs"
  using continued_quiet_append[of xs "[]"] by simp

lemma client_error_of_Some:
  "client_error_of out = Some msg \<Longrightarrow> \<not> escapes out \<and> out = Inl (ClientError msg)"
  by (cases out rule: client_error_of.cases) (simp_all add: escapes_def)

lemma continued_step:
  assumes "continued (Call q' out' # rest)" and "next_call q q'"
    and "\<And>msg. wiring_error_line q msg = err @ msg"
  shows "continued (step_block q ok err w @ (if escapes w then [] else Call q' out' # rest))"
proof (cases "client_error_of w")
  case None
  with assms(1) show ?thesis
    by (simp add: step_block_def)
next
  case (Some msg)
  from client_error_of_Some[OF this] assms show ?thesis
    by (simp add: step_block_def step_line_def escapes_def)
qed

lemma continued_wire:
  assumes "continued (Call q' out' # rest)"
    and "next_call (integration_response_call a r m b) q'"
  shows "continued (wire_events a r m b w1 w2 w3 w4 (Call q' out' # rest))"
proof -
  have 4: "continued (step_block (integration_response_call a r m b) ok
              ''Error setting integration response: '' w4
            @ (if escapes w4 then [] else Call q' out' # rest))" for ok
    by (rule continued_step[OF assms]) (simp add: calls)
  have 3: "continued (step_block (integration_call a r m) ok ''Error setting integration: '' w3
            @ (if escapes w3 then [] else
               step_block (integration_response_call a r m b) ok'
                 ''Error setting integration response: '' w4
            @ (if escapes w4 then [] else Call q' out' # rest)))" for ok ok'
    using 4[of ok'] unfolding step_block_def[of "integration_response_call a r m b"] append_Cons
    by (rule continued_step) (simp_all add: calls)
  have 2: "continued (step_block (method_response_call a r m) ok''
              ''Error creating method response: '' w2
            @ (if escapes w2 then [] else
               step_block (integration_call a r m) ok ''Error setting integration: '' w3
            @ (if escapes w3 then [] else
               step_block (integration_response_call a r m b) ok'
                 ''Error setting integration response: '' w4
            @ (if escapes w4 then [] else Call q' out' # rest))))" for ok ok' ok''
    using 3[of ok ok'] unfolding step_block_def[of "integration_call a r m"] append_Cons
    by (rule continued_step) (simp_all add: calls)
  show ?thesis
    unfolding wire_events_def
    using 2 unfolding step_block_def[of "method_response_call a r m"] append_Cons
    by (rule continued_step) (simp_all add: calls)
qed

lemma continued_listing: "continued (listing_events a o6 o7)"
  by (rule continued_quiet)
     (simp add: listing_events_def deploy_events_def quiet_append quiet_blocks
        deployment_call_def)

lemma listing_starts: "\<exists>rest. listing_events a o6 o7 = Call (GetResources a) o6 # rest"
  by (simp add: listing_events_def listing_block_def)

lemma continued_child:
  "continued (child_events a root m o4
      (\<lambda>child. wire_events a child m b c1 c2 c3 c4 (listing_events a o6 o7)))"
proof -
  have "continued (wire_events a child m b c1 c2 c3 c4 (listing_events a o6 o7))" for child
  proof -
    obtain rest where r: "listing_events a o6 o7 = Call (GetResources a) o6 # rest"
      using listing_starts by blast
    have c: "continued (Call (GetResources a) o6 # rest)"
      using continued_listing[of a o6 o7] by (simp add: r)
    show ?thesis
      unfolding r using c by (rule continued_wire) (simp add: calls)
  qed
  then show ?thesis
    by (simp add: child_events_def continued_quiet_append quiet_blocks split: option.splits)
qed

lemma child_starts:
  "\<exists>rest. child_events a root m o4 k = Call (CreateResource a root ''test'') o4 # rest"
  by (simp add: child_events_def id_block_def)

lemma continued_run: "continued (run_events name m o1 o2 r1 r2 r3 r4 o4 c1 c2 c3 c4 o6 o7)"
proof -
  have "continued (wire_events a root m b r1 r2 r3 r4
       (child_events a root m o4
          (\<lambda>child. wire_events a child m b' c1 c2 c3 c4 (listing_events a o6 o7))))"
    for a root b b'
  proof -
    obtain rest where r: "child_events a root m o4
          (\<lambda>child. wire_events a child m b' c1 c2 c3 c4 (listing_events a o6 o7))
        = Call (CreateResource a root ''test'') o4 # rest"
      using child_starts by blast
    have c: "continued (Call (CreateResource a root ''test'') o4 # rest)"
      using continued_child[of a root m o4 b' c1 c2 c3 c4 o6 o7] by (simp add: r)
    show ?thesis
      unfolding r using c by (rule continued_wire) (simp add: calls)
  qed
  then show ?thesis
    by (simp add: run_events_def api_events_def root_events_def continued_quiet_append
        quiet_blocks calls split: option.splits sum.splits)
qed

lemma continued_at:
  "continued evs \<Longrightarrow> evs = before @ Call q (Inl (ClientError msg)) # after \<Longrightarrow> is_wiring q
     \<Longrightarrow> reported_then q msg after"
proof (induction before arbitrary: evs)
  case Nil
  then show ?case by simp
next
  case (Cons e before)
  then show ?case by (cases e) auto
qed

lemma reported_then_shape:
  "reported_then q msg evs
     \<Longrightarrow> \<exists>q' out' rest. evs = Print (wiring_error_line q msg) # Call q' out' # rest
           \<and> next_call q q'"
  by (cases "(q, msg, evs)" rule: reported_then.cases) simp_all

section \<open>Configuration and templates\<close>

lemma check_required_fails:
  "\<not> truthy (env ''AWS_REGION'') \<or> \<not> truthy (env ''AWS_ACCESS_KEY_ID'')
      \<or> \<not> truthy (env ''AWS_SECRET_ACCESS_KEY'')
   \<Longrightarrow> \<exists>key \<in> {''AWS_REGION'', ''AWS_ACCESS_KEY_ID'', ''AWS_SECRET_ACCESS_KEY''}.
        check_required env [''AWS_REGION'', ''AWS_ACCESS_KEY_ID'', ''AWS_SECRET_ACCESS_KEY'']
          = Inl (RuntimeError (''Missing required AWS environment variable: '' @ key))"
  by (auto simp: getenv_def)

lemma debug_iff: "(getenv_default env ''DEBUG'' ''0'' = ''1'') = (env ''DEBUG'' = Some ''1'')"
  by (simp add: getenv_default_def split: option.splits)

lemma show_int_200: "show_int 200 = ''200''"
  by (simp add: show_int_def show_nat.simps)

lemma request_template:
  "json_dumps [(''statusCode'', JInt 200)] =
     ''{'' @ [dquote] @ ''statusCode'' @ [dquote] @ '': 200}''"
  by (simp add: json_dumps_def json_string_def json_escape_char_def show_int_200 dquote_def
      backslash_def)

lemma response_template:
  "json_dumps [(''statusCode'', JInt 200), (''body'', JStr body)] =
     ''{'' @ [dquote] @ ''statusCode'' @ [dquote] @ '': 200, '' @ [dquote] @ ''body''
       @ [dquote] @ '': '' @ json_string body @ ''}''"
  by (simp add: json_dumps_def json_string_def json_escape_char_def show_int_200 dquote_def
      backslash_def)

section \<open>The claims\<close>

text \<open>
  C1. A run of \<open>setup_rest_api_gateway\<close> in which every gateway call succeeds sends,
  for any API name and HTTP verb, exactly these thirteen requests and no other: the
  creation of the API, the listing that resolves the root resource, the four wiring
  requests of the root resource, the creation of the child resource \<open>test\<close>, the four
  wiring requests of the child resource, the verification listing, and the deployment.
  So there is one API creation, one child creation, two complete wiring chains and one
  deployment. And no run at all, successful or not, sends more than one deployment.
\<close>

theorem successful_run_calls:
  "(all_calls_succeeded (events_of (setup_rest_api_gateway gw api_name http_method g))
    \<longrightarrow> (\<exists>api_id root child.
       requests (events_of (setup_rest_api_gateway gw api_name http_method g)) =
         [CreateRestApi api_name ''A test API created with LocalStack and Boto3'' [''REGIONAL''],
          GetResources api_id]
          @ wiring_calls api_id root http_method ''Hello from root!''
          @ [CreateResource api_id root ''test'']
          @ wiring_calls api_id child http_method ''Hello from /test!''
          @ [GetResources api_id,
             CreateDeployment api_id ''prod'' ''Deployment with full mock setup'']
       \<and> length (filter is_api_creation
            (requests (events_of (setup_rest_api_gateway gw api_name http_method g)))) = 1
       \<and> length (filter is_child_creation
            (requests (events_of (setup_rest_api_gateway gw api_name http_method g)))) = 1
       \<and> filter is_wiring
            (requests (events_of (setup_rest_api_gateway gw api_name http_method g)))
          = wiring_calls api_id root http_method ''Hello from root!''
            @ wiring_calls api_id child http_method ''Hello from /test!''
       \<and> length (filter is_deployment
            (requests (events_of (setup_rest_api_gateway gw api_name http_method g)))) = 1))
   \<and> length (filter is_deployment
        (requests (events_of (setup_rest_api_gateway gw api_name http_method g)))) \<le> 1"
proof (intro conjI impI)
  obtain o1 o2 r1 r2 r3 r4 o4 c1 c2 c3 c4 o6 o7 where
    ev: "events_of (setup_rest_api_gateway gw api_name http_method g) =
       run_events api_name http_method o1 o2 r1 r2 r3 r4 o4 c1 c2 c3 c4 o6 o7"
    using run_events_exist[of gw api_name http_method g] by blast
  have "waits_from 0 (events_of (setup_rest_api_gateway gw api_name http_method g))"
    unfolding ev by (rule waits_run)
  then show "length (filter is_deployment
        (requests (events_of (setup_rest_api_gateway gw api_name http_method g)))) \<le> 1"
    by (rule waits_from_one_deployment)
  assume "all_calls_succeeded (events_of (setup_rest_api_gateway gw api_name http_method g))"
  then have "all_calls_succeeded
      (run_events api_name http_method o1 o2 r1 r2 r3 r4 o4 c1 c2 c3 c4 o6 o7)"
    by (simp add: ev)
  from successful_events[OF this] obtain api_id root child where
    rq: "requests (events_of (setup_rest_api_gateway gw api_name http_method g)) =
       [CreateRestApi api_name ''A test API created with LocalStack and Boto3'' [''REGIONAL''],
        GetResources api_id]
        @ wiring_calls api_id root http_method ''Hello from root!''
        @ [CreateResource api_id root ''test'']
        @ wiring_calls api_id child http_method ''Hello from /test!''
        @ [GetResources api_id,
           CreateDeployment api_id ''prod'' ''Deployment with full mock setup'']"
    unfolding ev by blast
  have "length (filter is_api_creation
          (requests (events_of (setup_rest_api_gateway gw api_name http_method g)))) = 1"
    and "length (filter is_child_creation
          (requests (events_of (setup_rest_api_gateway gw api_name http_method g)))) = 1"
    and "filter is_wiring
          (requests (events_of (setup_rest_api_gateway gw api_name http_method g)))
        = wiring_calls api_id root http_method ''Hello from root!''
          @ wiring_calls api_id child http_method ''Hello from /test!''"
    and "length (filter is_deployment
          (requests (events_of (setup_rest_api_gateway gw api_name http_method g)))) = 1"
    unfolding rq by (simp_all add: wiring_calls_def)
  with rq show "\<exists>api_id root child.
       requests (events_of (setup_rest_api_gateway gw api_name http_method g)) =
         [CreateRestApi api_name ''A test API created with LocalStack and Boto3'' [''REGIONAL''],
          GetResources api_id]
          @ wiring_calls api_id root http_method ''Hello from root!''
          @ [CreateResource api_id root ''test'']
          @ wiring_calls api_id child http_method ''Hello from /test!''
          @ [GetResources api_id,
             CreateDeployment api_id ''prod'' ''Deployment with full mock setup'']
       \<and> length (filter is_api_creation
            (requests (events_of (setup_rest_api_gateway gw api_name http_method g)))) = 1
       \<and> length (filter is_child_creation
            (requests (events_of (setup_rest_api_gateway gw api_name http_method g)))) = 1
       \<and> filter is_wiring
            (requests (events_of (setup_rest_api_gateway gw api_name http_method g)))
          = wiring_calls api_id root http_method ''Hello from root!''
            @ wiring_calls api_id child http_method ''Hello from /test!''
       \<and> length (filter is_deployment
            (requests (events_of (setup_rest_api_gateway gw api_name http_method g)))) = 1"
    by blast
qed

theorem successful_run_calls_witness:
  "all_calls_succeeded (events_of (setup_rest_api_gateway demo_gateway ''demo-api'' ''GET'' []))
   \<and> requests (events_of (setup_rest_api_gateway demo_gateway ''demo-api'' ''GET'' [])) =
       [CreateRestApi ''demo-api'' ''A test API created with LocalStack and Boto3'' [''REGIONAL''],
        GetResources ''api1'']
        @ wiring_calls ''api1'' ''root1'' ''GET'' ''Hello from root!''
        @ [CreateResource ''api1'' ''root1'' ''test'']
        @ wiring_calls ''api1'' ''child1'' ''GET'' ''Hello from /test!''
        @ [GetResources ''api1'',
           CreateDeployment ''api1'' ''prod'' ''Deployment with full mock setup'']
   \<and> length (filter is_deployment
        (requests (events_of (setup_rest_api_gateway demo_gateway ''demo-api'' ''GET'' [])))) = 1"
proof -
  have h: "all_calls_succeeded
      (events_of (setup_rest_api_gateway demo_gateway ''demo-api'' ''GET'' []))"
    by code_simp
  have r: "requests (events_of (setup_rest_api_gateway demo_gateway ''demo-api'' ''GET'' [])) =
       [CreateRestApi ''demo-api'' ''A test API created with LocalStack and Boto3'' [''REGIONAL''],
        GetResources ''api1'']
        @ wiring_calls ''api1'' ''root1'' ''GET'' ''Hello from root!''
        @ [CreateResource ''api1'' ''root1'' ''test'']
        @ wiring_calls ''api1'' ''child1'' ''GET'' ''Hello from /test!''
        @ [GetResources ''api1'',
           CreateDeployment ''api1'' ''prod'' ''Deployment with full mock setup'']"
    by code_simp
  from successful_run_calls[of demo_gateway "''demo-api''" "''GET''" "[]"] h
  have "length (filter is_deployment
        (requests (events_of (setup_rest_api_gateway demo_gateway ''demo-api'' ''GET'' [])))) = 1"
    by blast
  with h r show ?thesis by blast
qed

text \<open>
  C2. In a run where the creation of the child resource does not give a child resource
  id (the call was refused, or the id is missing or empty), the requests of the whole
  run are the creation of the API, the root listing, the four wiring requests of the
  root resource once each, and the creation request itself: no wiring request for a
  child resource and no deployment.
\<close>

theorem failed_child_creation_stops_before_child_wiring:
  assumes "Call (CreateResource api_id parent part) out
      \<in> set (events_of (setup_rest_api_gateway gw api_name http_method g))"
    and "\<not> gives_id out"
  shows "requests (events_of (setup_rest_api_gateway gw api_name http_method g)) =
       [CreateRestApi api_name ''A test API created with LocalStack and Boto3'' [''REGIONAL''],
        GetResources api_id]
        @ wiring_calls api_id parent http_method ''Hello from root!''
        @ [CreateResource api_id parent ''test'']
     \<and> filter is_wiring (requests (events_of (setup_rest_api_gateway gw api_name http_method g)))
        = wiring_calls api_id parent http_method ''Hello from root!''
     \<and> filter is_deployment
          (requests (events_of (setup_rest_api_gateway gw api_name http_method g))) = []"
proof -
  obtain o1 o2 r1 r2 r3 r4 o4 c1 c2 c3 c4 o6 o7 where
    ev: "events_of (setup_rest_api_gateway gw api_name http_method g) =
       run_events api_name http_method o1 o2 r1 r2 r3 r4 o4 c1 c2 c3 c4 o6 o7"
    using run_events_exist[of gw api_name http_method g] by blast
  from assms(1) have "Call (CreateResource api_id parent part) out
      \<in> set (run_events api_name http_method o1 o2 r1 r2 r3 r4 o4 c1 c2 c3 c4 o6 o7)"
    by (simp add: ev)
  from failed_child_events[OF this assms(2)]
  have rq: "requests (events_of (setup_rest_api_gateway gw api_name http_method g)) =
       [CreateRestApi api_name ''A test API created with LocalStack and Boto3'' [''REGIONAL''],
        GetResources api_id]
        @ wiring_calls api_id parent http_method ''Hello from root!''
        @ [CreateResource api_id parent ''test'']"
    by (simp add: ev)
  have "filter is_wiring (requests (events_of (setup_rest_api_gateway gw api_name http_method g)))
        = wiring_calls api_id parent http_method ''Hello from root!''"
    and "filter is_deployment
          (requests (events_of (setup_rest_api_gateway gw api_name http_method g))) = []"
    unfolding rq by (simp_all add: wiring_calls_def)
  with rq show ?thesis by blast
qed

theorem failed_child_creation_stops_before_child_wiring_witness:
  "Call (CreateResource ''api1'' ''root1'' ''test'') (Inl (ClientError ''limit exceeded''))
      \<in> set (events_of (setup_rest_api_gateway childless_gateway ''demo-api'' ''GET'' []))
   \<and> \<not> gives_id (Inl (ClientError ''limit exceeded''))
   \<and> requests (events_of (setup_rest_api_gateway childless_gateway ''demo-api'' ''GET'' [])) =
       [CreateRestApi ''demo-api'' ''A test API created with LocalStack and Boto3'' [''REGIONAL''],
        GetResources ''api1'']
        @ wiring_calls ''api1'' ''root1'' ''GET'' ''Hello from root!''
        @ [CreateResource ''api1'' ''root1'' ''test'']"
proof -
  have h1: "Call (CreateResource ''api1'' ''root1'' ''test'') (Inl (ClientError ''limit exceeded''))
      \<in> set (events_of (setup_rest_api_gateway childless_gateway ''demo-api'' ''GET'' []))"
    by code_simp
  have h2: "\<not> gives_id (Inl (ClientError ''limit exceeded''))"
    by (simp add: gives_id_def)
  from failed_child_creation_stops_before_child_wiring[OF h1 h2] h1 h2
  show ?thesis by blast
qed

text \<open>
  C3. When \<open>create_rest_api\<close> returns no API id (\<open>None\<close> after a refused call, or an
  empty id), the run ends at once with \<open>SystemExit(1)\<close>: the events of the run are those
  of \<open>create_rest_api\<close> alone, and its only request is the creation of the API.
\<close>

theorem no_api_id_stops_run:
  assumes "result_of (create_rest_api gw api_name g) = Inr created" and "\<not> truthy created"
  shows "result_of (setup_rest_api_gateway gw api_name http_method g) = Inl (SystemExit 1)
     \<and> events_of (setup_rest_api_gateway gw api_name http_method g)
         = events_of (create_rest_api gw api_name g)
     \<and> requests (events_of (setup_rest_api_gateway gw api_name http_method g))
         = [CreateRestApi api_name ''A test API created with LocalStack and Boto3'' [''REGIONAL'']]"
proof -
  obtain evs g' where r: "create_rest_api gw api_name g = (Inr created, evs, g')"
    using assms(1) by (cases "create_rest_api gw api_name g") (simp add: result_of_def)
  have t: "truthy_value created = None"
    using assms(2) by (cases created) simp_all
  have s: "setup_rest_api_gateway gw api_name http_method g = (Inl (SystemExit 1), evs, g')"
    by (simp add: setup_rest_api_gateway_def bind_def r t raise_def)
  have q: "requests (events_of (create_rest_api gw api_name g))
      = [CreateRestApi api_name ''A test API created with LocalStack and Boto3'' [''REGIONAL'']]"
    by (simp add: create_rest_api_run events_step id_block_def create_api_call_def)
  show ?thesis
    using q by (simp add: s r proj_simps)
qed

theorem no_api_id_stops_run_witness:
  "result_of (create_rest_api (failing_gateway (ClientError ''denied'')) ''demo-api'' ()) = Inr None
   \<and> \<not> truthy None
   \<and> result_of (setup_rest_api_gateway (failing_gateway (ClientError ''denied''))
        ''demo-api'' ''GET'' ()) = Inl (SystemExit 1)
   \<and> events_of (setup_rest_api_gateway (failing_gateway (ClientError ''denied''))
        ''demo-api'' ''GET'' ())
      = [Call (CreateRestApi ''demo-api'' ''A test API created with LocalStack and Boto3''
                 [''REGIONAL''])
              (Inl (ClientError ''denied'')),
         Print ''Error creating API: denied'']"
proof -
  have h1: "result_of (create_rest_api (failing_gateway (ClientError ''denied'')) ''demo-api'' ())
      = Inr None"
    by (simp add: create_rest_api_def prims failing_gateway_def result_of_def)
  have h2: "\<not> truthy None" by simp
  have e: "events_of (create_rest_api (failing_gateway (ClientError ''denied'')) ''demo-api'' ())
      = [Call (CreateRestApi ''demo-api'' ''A test API created with LocalStack and Boto3''
                 [''REGIONAL''])
              (Inl (ClientError ''denied'')),
         Print ''Error creating API: denied'']"
    by (simp add: create_rest_api_def prims failing_gateway_def events_of_def)
  from no_api_id_stops_run[OF h1 h2, of "''GET''"] h1 h2 e show ?thesis by simp
qed

text \<open>
  C4. In every run, between any gateway call (so in particular the last wiring call) and
  a later deployment call, the run has waited at least 10 time units in \<open>time.sleep\<close>;
  and no gateway call is sent after the deployment call.
\<close>

theorem deployment_waits_for_propagation:
  assumes "events_of (setup_rest_api_gateway gw api_name http_method g) =
      before @ Call q out # between @ Call (CreateDeployment api_id stage descr) out' # after"
  shows "10 \<le> waited between \<and> requests after = []"
proof -
  obtain o1 o2 r1 r2 r3 r4 o4 c1 c2 c3 c4 o6 o7 where
    ev: "events_of (setup_rest_api_gateway gw api_name http_method g) =
       run_events api_name http_method o1 o2 r1 r2 r3 r4 o4 c1 c2 c3 c4 o6 o7"
    using run_events_exist[of gw api_name http_method g] by blast
  have "waits_from 0 (events_of (setup_rest_api_gateway gw api_name http_method g))"
    unfolding ev by (rule waits_run)
  from waits_between[OF this assms] show ?thesis by simp
qed

theorem deployment_waits_for_propagation_witness:
  "events_of (setup_rest_api_gateway demo_gateway ''demo-api'' ''GET'' []) =
      take 20 (events_of (setup_rest_api_gateway demo_gateway ''demo-api'' ''GET'' []))
      @ Call (PutIntegrationResponse ''api1'' ''child1'' ''GET'' ''200''
                [(''application/json'',
                  json_dumps [(''statusCode'', JInt 200), (''body'', JStr ''Hello from /test!'')])])
             (Inr (Response None None))
      # take 6 (drop 21 (events_of (setup_rest_api_gateway demo_gateway ''demo-api'' ''GET'' [])))
      @ Call (CreateDeployment ''api1'' ''prod'' ''Deployment with full mock setup'')
             (Inr (Response (Some ''dep1'') None))
      # drop 28 (events_of (setup_rest_api_gateway demo_gateway ''demo-api'' ''GET'' []))
   \<and> 10 \<le> waited (take 6 (drop 21
        (events_of (setup_rest_api_gateway demo_gateway ''demo-api'' ''GET'' []))))
   \<and> requests (drop 28 (events_of (setup_rest_api_gateway demo_gateway ''demo-api'' ''GET'' [])))
      = []"
proof -
  have h: "events_of (setup_rest_api_gateway demo_gateway ''demo-api'' ''GET'' []) =
      take 20 (events_of (setup_rest_api_gateway demo_gateway ''demo-api'' ''GET'' []))
      @ Call (PutIntegrationResponse ''api1'' ''child1'' ''GET'' ''200''
                [(''application/json'',
                  json_dumps [(''statusCode'', JInt 200), (''body'', JStr ''Hello from /test!'')])])
             (Inr (Response None None))
      # take 6 (drop 21 (events_of (setup_rest_api_gateway demo_gateway ''demo-api'' ''GET'' [])))
      @ Call (CreateDeployment ''api1'' ''prod'' ''Deployment with full mock setup'')
             (Inr (Response (Some ''dep1'') None))
      # drop 28 (events_of (setup_rest_api_gateway demo_gateway ''demo-api'' ''GET'' []))"
    by code_simp
  from deployment_waits_for_propagation[OF h] h show ?thesis by blast
qed

text \<open>
  C5. \<open>load_aws_config\<close>, when \<open>DEBUG\<close> is not \<open>1\<close> (production mode) and one of
  \<open>AWS_REGION\<close>, \<open>AWS_ACCESS_KEY_ID\<close>, \<open>AWS_SECRET_ACCESS_KEY\<close> is unset or empty, fails
  with the error that names a missing variable (the source raises it as a
  \<open>RuntimeError\<close>); when \<open>DEBUG\<close> is \<open>1\<close> it returns the local endpoint with the fixed
  region and credentials, whatever the other variables are.
\<close>

theorem load_aws_config_modes:
  "(env ''DEBUG'' \<noteq> Some ''1'' \<and>
      (\<not> truthy (env ''AWS_REGION'') \<or> \<not> truthy (env ''AWS_ACCESS_KEY_ID'')
         \<or> \<not> truthy (env ''AWS_SECRET_ACCESS_KEY''))
    \<longrightarrow> (\<exists>key \<in> {''AWS_REGION'', ''AWS_ACCESS_KEY_ID'', ''AWS_SECRET_ACCESS_KEY''}.
           load_aws_config localstack_host env
             = Inl (RuntimeError (''Missing required AWS environment variable: '' @ key))))
   \<and> (env ''DEBUG'' = Some ''1''
    \<longrightarrow> load_aws_config localstack_host env
          = Inr \<lparr>endpoint_url = localstack_host, region_name = ''us-east-1'',
                 aws_access_key_id = ''test'', aws_secret_access_key = ''test''\<rparr>)"
proof (intro conjI impI)
  assume a: "env ''DEBUG'' \<noteq> Some ''1'' \<and>
      (\<not> truthy (env ''AWS_REGION'') \<or> \<not> truthy (env ''AWS_ACCESS_KEY_ID'')
         \<or> \<not> truthy (env ''AWS_SECRET_ACCESS_KEY''))"
  then obtain key where "key \<in> {''AWS_REGION'', ''AWS_ACCESS_KEY_ID'', ''AWS_SECRET_ACCESS_KEY''}"
    "check_required env [''AWS_REGION'', ''AWS_ACCESS_KEY_ID'', ''AWS_SECRET_ACCESS_KEY'']
          = Inl (RuntimeError (''Missing required AWS environment variable: '' @ key))"
    using check_required_fails[of env] by blast
  with a show "\<exists>key \<in> {''AWS_REGION'', ''AWS_ACCESS_KEY_ID'', ''AWS_SECRET_ACCESS_KEY''}.
           load_aws_config localstack_host env
             = Inl (RuntimeError (''Missing required AWS environment variable: '' @ key))"
    unfolding load_aws_config_def Let_def debug_iff by (intro bexI[of _ key]) simp_all
next
  assume "env ''DEBUG'' = Some ''1''"
  then show "load_aws_config localstack_host env
          = Inr \<lparr>endpoint_url = localstack_host, region_name = ''us-east-1'',
                 aws_access_key_id = ''test'', aws_secret_access_key = ''test''\<rparr>"
    by (simp add: load_aws_config_def debug_iff)
qed

theorem load_aws_config_modes_witness:
  "load_aws_config ''http://localhost.localstack.cloud:4566''
       [''AWS_REGION'' \<mapsto> ''eu-west-1'', ''AWS_ACCESS_KEY_ID'' \<mapsto> '''']
     = Inl (RuntimeError ''Missing required AWS environment variable: AWS_ACCESS_KEY_ID'')
   \<and> load_aws_config ''http://localhost.localstack.cloud:4566''
       [''DEBUG'' \<mapsto> ''1'', ''AWS_REGION'' \<mapsto> '''']
     = Inr \<lparr>endpoint_url = ''http://localhost.localstack.cloud:4566'', region_name = ''us-east-1'',
            aws_access_key_id = ''test'', aws_secret_access_key = ''test''\<rparr>"
  using load_aws_config_modes[of "[''AWS_REGION'' \<mapsto> ''eu-west-1'', ''AWS_ACCESS_KEY_ID'' \<mapsto> '''']"
          "''http://localhost.localstack.cloud:4566''"]
        load_aws_config_modes[of "[''DEBUG'' \<mapsto> ''1'', ''AWS_REGION'' \<mapsto> '''']"
          "''http://localhost.localstack.cloud:4566''"]
  by (simp add: load_aws_config_def getenv_default_def getenv_def)

text \<open>
  C6, as the code has it. The claim that every error of a remote call is surfaced as a
  wrapped gateway error, and that no raw error crosses the adapter, fails: see the
  counterexample after this theorem. What the seven guarded functions do with a
  service error (\<open>ClientError\<close>) of their remote call: it never leaves the function; the
  function prints one line that names the failed operation and carries the cause, and
  returns \<open>None\<close>.
\<close>

theorem client_errors_are_caught_and_reported:
  "(gw g (CreateRestApi api_name ''A test API created with LocalStack and Boto3'' [''REGIONAL''])
        = (Inl (ClientError msg), g')
      \<longrightarrow> create_rest_api gw api_name g
          = (Inr None,
             [Call (CreateRestApi api_name ''A test API created with LocalStack and Boto3''
                      [''REGIONAL'']) (Inl (ClientError msg)),
              Print (''Error creating API: '' @ msg)], g'))
   \<and> (gw g (CreateResource api_id parent part) = (Inl (ClientError msg), g')
      \<longrightarrow> create_child_resource gw api_id parent part g
          = (Inr None,
             [Call (CreateResource api_id parent part) (Inl (ClientError msg)),
              Print (''Error creating child resource: '' @ msg)], g'))
   \<and> (gw g (PutMethod api_id resource_id http_method ''NONE'') = (Inl (ClientError msg), g')
      \<longrightarrow> create_method gw api_id resource_id http_method g
          = (Inr None,
             [Call (PutMethod api_id resource_id http_method ''NONE'') (Inl (ClientError msg)),
              Print (''Error creating method: '' @ msg)], g'))
   \<and> (gw g (PutMethodResponse api_id resource_id http_method ''200''
               [(''application/json'', ''Empty'')]) = (Inl (ClientError msg), g')
      \<longrightarrow> create_method_response gw api_id resource_id http_method g
          = (Inr (),
             [Call (PutMethodResponse api_id resource_id http_method ''200''
                      [(''application/json'', ''Empty'')]) (Inl (ClientError msg)),
              Print (''Error creating method response: '' @ msg)], g'))
   \<and> (gw g (PutIntegration api_id resource_id http_method ''MOCK''
               [(''application/json'', json_dumps [(''statusCode'', JInt 200)])])
        = (Inl (ClientError msg), g')
      \<longrightarrow> set_mock_integration gw api_id resource_id http_method body g
          = (Inr (),
             [Call (PutIntegration api_id resource_id http_method ''MOCK''
                      [(''application/json'', json_dumps [(''statusCode'', JInt 200)])])
                   (Inl (ClientError msg)),
              Print (''Error setting integration: '' @ msg)], g'))
   \<and> (gw g (PutIntegrationResponse api_id resource_id http_method ''200''
               [(''application/json'',
                 json_dumps [(''statusCode'', JInt 200), (''body'', JStr body)])])
        = (Inl (ClientError msg), g')
      \<longrightarrow> set_mock_integration_response gw api_id resource_id http_method body g
          = (Inr (),
             [Call (PutIntegrationResponse api_id resource_id http_method ''200''
                      [(''application/json'',
                        json_dumps [(''statusCode'', JInt 200), (''body'', JStr body)])])
                   (Inl (ClientError msg)),
              Print (''Error setting integration response: '' @ msg)], g'))
   \<and> (gw g (CreateDeployment api_id stage ''Deployment with full mock setup'')
        = (Inl (ClientError msg), g')
      \<longrightarrow> create_deployment gw api_id stage g
          = (Inr None,
             [Sleep 10,
              Call (CreateDeployment api_id stage ''Deployment with full mock setup'')
                   (Inl (ClientError msg)),
              Print (''Error deploying API: '' @ msg)], g'))"
  by (simp add: create_rest_api_def create_child_resource_def create_method_def
      create_method_response_def set_mock_integration_def set_mock_integration_response_def
      create_deployment_def prims)

theorem client_errors_are_caught_and_reported_witness:
  "create_rest_api (failing_gateway (ClientError ''denied'')) ''demo-api'' ()
     = (Inr None,
        [Call (CreateRestApi ''demo-api'' ''A test API created with LocalStack and Boto3''
                 [''REGIONAL'']) (Inl (ClientError ''denied'')),
         Print ''Error creating API: denied''], ())
   \<and> create_child_resource (failing_gateway (ClientError ''denied'')) ''api1'' ''root1'' ''test'' ()
     = (Inr None,
        [Call (CreateResource ''api1'' ''root1'' ''test'') (Inl (ClientError ''denied'')),
         Print ''Error creating child resource: denied''], ())
   \<and> create_method (failing_gateway (ClientError ''denied'')) ''api1'' ''root1'' ''GET'' ()
     = (Inr None,
        [Call (PutMethod ''api1'' ''root1'' ''GET'' ''NONE'') (Inl (ClientError ''denied'')),
         Print ''Error creating method: denied''], ())
   \<and> create_deployment (failing_gateway (ClientError ''denied'')) ''api1'' ''prod'' ()
     = (Inr None,
        [Sleep 10,
         Call (CreateDeployment ''api1'' ''prod'' ''Deployment with full mock setup'')
              (Inl (ClientError ''denied'')),
         Print ''Error deploying API: denied''], ())"
  using client_errors_are_caught_and_reported[of "failing_gateway (ClientError ''denied'')"
      "()" "''demo-api''" "''denied''" "()" "''api1''" "''root1''" "''test''" "''root1''" "''GET''"
      "''Hello from root!''" "''prod''"]
  by (simp add: failing_gateway_def)

text \<open>
  The counterexample to C6 as stated: a \<open>ClientError\<close> of the listing call leaves
  \<open>get_root_resource_id\<close> as it is, unwrapped and with nothing printed, and an error of
  the client that is not a \<open>ClientError\<close> leaves \<open>create_rest_api\<close> the same way.
\<close>

theorem raw_errors_cross_the_adapter:
  "get_root_resource_id (failing_gateway (ClientError ''throttled'')) ''api1'' ()
     = (Inl (ClientError ''throttled''),
        [Call (GetResources ''api1'') (Inl (ClientError ''throttled''))], ())
   \<and> create_rest_api (failing_gateway (BotoCoreError ''connection refused'')) ''demo-api'' ()
     = (Inl (BotoCoreError ''connection refused''),
        [Call (CreateRestApi ''demo-api'' ''A test API created with LocalStack and Boto3''
                 [''REGIONAL'']) (Inl (BotoCoreError ''connection refused''))], ())"
  by (simp add: get_root_resource_id_def create_rest_api_def prims failing_gateway_def)

text \<open>
  C7, as the code has it. The wiring functions catch \<open>ClientError\<close> and nothing else, so
  the claim that a failed wiring step never halts the steps after it fails for a failure
  of another class: see the counterexample after this theorem. For the service's
  error responses it holds: in every run, a wiring call (method, method response,
  integration, integration response) that raised a \<open>ClientError\<close> is followed at once by
  the printed line of that step with the cause, and then by the next call of the run:
  the next wiring step of the same resource, or, after the last step of a resource, the
  creation of the child resource or the verification listing.
\<close>

theorem wiring_failure_is_reported_and_run_continues:
  assumes "events_of (setup_rest_api_gateway gw api_name http_method g) =
      before @ Call q (Inl (ClientError msg)) # after"
    and "is_wiring q"
  shows "\<exists>q' out' rest.
      after = Print (wiring_error_line q msg) # Call q' out' # rest \<and> next_call q q'"
proof -
  obtain o1 o2 r1 r2 r3 r4 o4 c1 c2 c3 c4 o6 o7 where
    ev: "events_of (setup_rest_api_gateway gw api_name http_method g) =
       run_events api_name http_method o1 o2 r1 r2 r3 r4 o4 c1 c2 c3 c4 o6 o7"
    using run_events_exist[of gw api_name http_method g] by blast
  have "continued (events_of (setup_rest_api_gateway gw api_name http_method g))"
    unfolding ev by (rule continued_run)
  from continued_at[OF this assms] show ?thesis
    by (rule reported_then_shape)
qed

theorem wiring_failure_is_reported_and_run_continues_witness:
  "events_of (setup_rest_api_gateway flaky_gateway ''demo-api'' ''GET'' []) =
      take 6 (events_of (setup_rest_api_gateway flaky_gateway ''demo-api'' ''GET'' []))
      @ Call (PutMethodResponse ''api1'' ''root1'' ''GET'' ''200''
                [(''application/json'', ''Empty'')]) (Inl (ClientError ''conflict''))
      # drop 7 (events_of (setup_rest_api_gateway flaky_gateway ''demo-api'' ''GET'' []))
   \<and> is_wiring (PutMethodResponse ''api1'' ''root1'' ''GET'' ''200''
                  [(''application/json'', ''Empty'')])
   \<and> take 2 (drop 7 (events_of (setup_rest_api_gateway flaky_gateway ''demo-api'' ''GET'' [])))
      = [Print ''Error creating method response: conflict'',
         Call (PutIntegration ''api1'' ''root1'' ''GET'' ''MOCK''
                 [(''application/json'', json_dumps [(''statusCode'', JInt 200)])])
              (Inr (Response None None))]
   \<and> (\<exists>q' out' rest.
        drop 7 (events_of (setup_rest_api_gateway flaky_gateway ''demo-api'' ''GET'' []))
          = Print ''Error creating method response: conflict'' # Call q' out' # rest)"
proof -
  have h: "events_of (setup_rest_api_gateway flaky_gateway ''demo-api'' ''GET'' []) =
      take 6 (events_of (setup_rest_api_gateway flaky_gateway ''demo-api'' ''GET'' []))
      @ Call (PutMethodResponse ''api1'' ''root1'' ''GET'' ''200''
                [(''application/json'', ''Empty'')]) (Inl (ClientError ''conflict''))
      # drop 7 (events_of (setup_rest_api_gateway flaky_gateway ''demo-api'' ''GET'' []))"
    by code_simp
  have w: "is_wiring (PutMethodResponse ''api1'' ''root1'' ''GET'' ''200''
                  [(''application/json'', ''Empty'')])"
    by simp
  have t: "take 2 (drop 7 (events_of (setup_rest_api_gateway flaky_gateway ''demo-api'' ''GET'' [])))
      = [Print ''Error creating method response: conflict'',
         Call (PutIntegration ''api1'' ''root1'' ''GET'' ''MOCK''
                 [(''application/json'', json_dumps [(''statusCode'', JInt 200)])])
              (Inr (Response None None))]"
    by code_simp
  from wiring_failure_is_reported_and_run_continues[OF h w]
  have "\<exists>q' out' rest.
        drop 7 (events_of (setup_rest_api_gateway flaky_gateway ''demo-api'' ''GET'' []))
          = Print ''Error creating method response: conflict'' # Call q' out' # rest"
    by auto
  with h w t show ?thesis by blast
qed

text \<open>
  The counterexample to C7 as stated: the connection is lost during the first wiring
  step of the root resource. The exception is not caught and nothing is printed for it;
  the run ends with it, and the three wiring steps after it are never sent.
\<close>

theorem wiring_failure_can_halt_the_run:
  "result_of (setup_rest_api_gateway unreachable_gateway ''demo-api'' ''GET'' [])
     = Inl (BotoCoreError ''Could not connect to the endpoint URL'')
   \<and> requests (events_of (setup_rest_api_gateway unreachable_gateway ''demo-api'' ''GET'' []))
     = [CreateRestApi ''demo-api'' ''A test API created with LocalStack and Boto3'' [''REGIONAL''],
        GetResources ''api1'',
        PutMethod ''api1'' ''root1'' ''GET'' ''NONE'']
   \<and> last (events_of (setup_rest_api_gateway unreachable_gateway ''demo-api'' ''GET'' []))
     = Call (PutMethod ''api1'' ''root1'' ''GET'' ''NONE'')
         (Inl (BotoCoreError ''Could not connect to the endpoint URL''))"
  by code_simp

text \<open>
  C8. \<open>get_root_resource_id\<close> is partial. Given the listing the gateway returned: when
  an item of path \<open>/\<close> is in it, the function returns the id of the first such item;
  when no item has path \<open>/\<close>, it ends with \<open>StopIteration\<close>, after the listing call
  and with nothing printed. Nothing catches it: a run of \<open>setup_rest_api_gateway\<close> that
  reaches this listing ends with the same \<open>StopIteration\<close>.
\<close>

theorem get_root_resource_id_partial:
  assumes "gw g (GetResources api_id) = (Inr resp, g')" and "resp_items resp = Some items"
  shows "(\<forall>before root after.
            items = before @ root # after \<and> item_path root = ''/''
              \<and> (\<forall>i \<in> set before. item_path i \<noteq> ''/'')
            \<longrightarrow> result_of (get_root_resource_id gw api_id g) = Inr (item_id root))
       \<and> ((\<forall>i \<in> set items. item_path i \<noteq> ''/'')
            \<longrightarrow> get_root_resource_id gw api_id g
                  = (Inl StopIteration, [Call (GetResources api_id) (Inr resp)], g'))
       \<and> (\<forall>api_name http_method g0 evs0.
            (\<forall>i \<in> set items. item_path i \<noteq> ''/'')
              \<and> create_rest_api gw api_name g0 = (Inr (Some api_id), evs0, g) \<and> api_id \<noteq> []
            \<longrightarrow> result_of (setup_rest_api_gateway gw api_name http_method g0)
                  = Inl StopIteration)"
proof (intro conjI allI impI)
  fix before root after
  assume a: "items = before @ root # after \<and> item_path root = ''/''
      \<and> (\<forall>i \<in> set before. item_path i \<noteq> ''/'')"
  then have "filter (\<lambda>item. item_path item = ''/'') items
      = root # filter (\<lambda>item. item_path item = ''/'') after"
    by simp
  then show "result_of (get_root_resource_id gw api_id g) = Inr (item_id root)"
    using assms by (simp add: get_root_resource_id_def prims result_of_def)
next
  assume "\<forall>i \<in> set items. item_path i \<noteq> ''/''"
  then have "filter (\<lambda>item. item_path item = ''/'') items = []"
    by (simp add: filter_empty_conv)
  then show "get_root_resource_id gw api_id g
      = (Inl StopIteration, [Call (GetResources api_id) (Inr resp)], g')"
    using assms by (simp add: get_root_resource_id_def prims)
next
  fix api_name http_method g0 evs0
  assume a: "(\<forall>i \<in> set items. item_path i \<noteq> ''/'')
      \<and> create_rest_api gw api_name g0 = (Inr (Some api_id), evs0, g) \<and> api_id \<noteq> []"
  then have "filter (\<lambda>item. item_path item = ''/'') items = []"
    by (simp add: filter_empty_conv)
  then have "get_root_resource_id gw api_id g
      = (Inl StopIteration, [Call (GetResources api_id) (Inr resp)], g')"
    using assms by (simp add: get_root_resource_id_def prims)
  with a show "result_of (setup_rest_api_gateway gw api_name http_method g0) = Inl StopIteration"
    by (simp add: setup_rest_api_gateway_def bind_def result_of_def)
qed

theorem get_root_resource_id_partial_witness:
  "result_of (get_root_resource_id
      (listing_gateway [Item ''c1'' ''/test'', Item ''r1'' ''/'', Item ''r2'' ''/'']) ''api1'' ())
     = Inr ''r1''
   \<and> get_root_resource_id (listing_gateway [Item ''c1'' ''/test'']) ''api1'' ()
     = (Inl StopIteration,
        [Call (GetResources ''api1'') (Inr (Response None (Some [Item ''c1'' ''/test''])))], ())
   \<and> result_of (setup_rest_api_gateway rootless_gateway ''demo-api'' ''GET'' [])
     = Inl StopIteration"
proof -
  have 1: "result_of (get_root_resource_id
      (listing_gateway [Item ''c1'' ''/test'', Item ''r1'' ''/'', Item ''r2'' ''/'']) ''api1'' ())
     = Inr ''r1''"
    using get_root_resource_id_partial[of
          "listing_gateway [Item ''c1'' ''/test'', Item ''r1'' ''/'', Item ''r2'' ''/'']"
          "()" "''api1''"
          "Response None (Some [Item ''c1'' ''/test'', Item ''r1'' ''/'', Item ''r2'' ''/''])" "()"
          "[Item ''c1'' ''/test'', Item ''r1'' ''/'', Item ''r2'' ''/'']"]
    by (simp add: listing_gateway_def get_root_resource_id_def prims result_of_def)
  have 2: "get_root_resource_id (listing_gateway [Item ''c1'' ''/test'']) ''api1'' ()
     = (Inl StopIteration,
        [Call (GetResources ''api1'') (Inr (Response None (Some [Item ''c1'' ''/test''])))], ())"
    using get_root_resource_id_partial[of "listing_gateway [Item ''c1'' ''/test'']"
          "()" "''api1''" "Response None (Some [Item ''c1'' ''/test''])" "()"
          "[Item ''c1'' ''/test'']"]
    by (simp add: listing_gateway_def)
  have c: "create_rest_api rootless_gateway ''demo-api'' []
      = (Inr (Some ''api1''),
         [Call (CreateRestApi ''demo-api'' ''A test API created with LocalStack and Boto3''
                  [''REGIONAL'']) (Inr (Response (Some ''api1'') None)),
          Print ''Created REST API: demo-api (ID: api1)''],
         [Item ''c1'' ''/test''])"
    by (simp add: create_rest_api_def prims)
  have 3: "result_of (setup_rest_api_gateway rootless_gateway ''demo-api'' ''GET'' [])
     = Inl StopIteration"
    using get_root_resource_id_partial[of rootless_gateway "[Item ''c1'' ''/test'']" "''api1''"
          "Response None (Some [Item ''c1'' ''/test''])" "[Item ''c1'' ''/test'']"
          "[Item ''c1'' ''/test'']"] c
    by simp
  from 1 2 3 show ?thesis by simp
qed

text \<open>
  C9. In production mode with \<open>AWS_ENDPOINT_URL\<close> unset and the three required variables
  set to non-empty values, \<open>load_aws_config\<close> succeeds, and the endpoint of the
  configuration it returns is the four characters \<open>None\<close>.
\<close>

theorem production_endpoint_unset:
  assumes "env ''DEBUG'' \<noteq> Some ''1''" and "env ''AWS_ENDPOINT_URL'' = None"
    and "env ''AWS_REGION'' = Some region" and "region \<noteq> []"
    and "env ''AWS_ACCESS_KEY_ID'' = Some access_key" and "access_key \<noteq> []"
    and "env ''AWS_SECRET_ACCESS_KEY'' = Some secret_key" and "secret_key \<noteq> []"
  shows "load_aws_config localstack_host env
           = Inr \<lparr>endpoint_url = ''None'', region_name = region,
                  aws_access_key_id = access_key, aws_secret_access_key = secret_key\<rparr>"
  using assms by (simp add: load_aws_config_def debug_iff getenv_def)

theorem production_endpoint_unset_witness:
  "load_aws_config ''http://localhost.localstack.cloud:4566''
      [''AWS_REGION'' \<mapsto> ''eu-west-1'', ''AWS_ACCESS_KEY_ID'' \<mapsto> ''AKIA'',
       ''AWS_SECRET_ACCESS_KEY'' \<mapsto> ''s3cr3t'']
     = Inr \<lparr>endpoint_url = ''None'', region_name = ''eu-west-1'',
            aws_access_key_id = ''AKIA'', aws_secret_access_key = ''s3cr3t''\<rparr>"
  by (rule production_endpoint_unset) simp_all

text \<open>
  C10. What \<open>set_mock_integration\<close> does is the same for any two response bodies: its
  request carries the fixed request template with the status code only. The response
  body enters the request of \<open>set_mock_integration_response\<close>, as the \<open>body\<close> of its
  response template.
\<close>

theorem set_mock_integration_ignores_body:
  "set_mock_integration gw api_id resource_id http_method body g
     = set_mock_integration gw api_id resource_id http_method body' g
   \<and> requests (events_of (set_mock_integration gw api_id resource_id http_method body g))
     = [PutIntegration api_id resource_id http_method ''MOCK''
          [(''application/json'', ''{'' @ [dquote] @ ''statusCode'' @ [dquote] @ '': 200}'')]]
   \<and> requests (events_of (set_mock_integration_response gw api_id resource_id http_method body g))
     = [PutIntegrationResponse api_id resource_id http_method ''200''
          [(''application/json'',
            ''{'' @ [dquote] @ ''statusCode'' @ [dquote] @ '': 200, '' @ [dquote] @ ''body''
              @ [dquote] @ '': '' @ json_string body @ ''}'')]]"
proof (intro conjI)
  show "set_mock_integration gw api_id resource_id http_method body g
     = set_mock_integration gw api_id resource_id http_method body' g"
    by (simp add: set_mock_integration_def)
  show "requests (events_of (set_mock_integration gw api_id resource_id http_method body g))
     = [PutIntegration api_id resource_id http_method ''MOCK''
          [(''application/json'', ''{'' @ [dquote] @ ''statusCode'' @ [dquote] @ '': 200}'')]]"
    unfolding set_mock_integration_run events_step
    by (simp add: step_block_def integration_call_def request_template)
  show "requests (events_of (set_mock_integration_response gw api_id resource_id http_method body g))
     = [PutIntegrationResponse api_id resource_id http_method ''200''
          [(''application/json'',
            ''{'' @ [dquote] @ ''statusCode'' @ [dquote] @ '': 200, '' @ [dquote] @ ''body''
              @ [dquote] @ '': '' @ json_string body @ ''}'')]]"
    unfolding set_mock_integration_response_run events_step
    by (simp add: step_block_def integration_response_call_def response_template)
qed


end
